theory Spec2Isabelle
  imports Main
begin

section \<open>Python values\<close>

text \<open>
  The values that travel through the hook engine and the generated handlers.
  A Python \<open>dict\<close> with string keys is an association list in insertion order.
  \<open>VInstance\<close> is the reference to the ORM object the running handler has loaded
  into its session; the object's attributes live in the handler's world, because
  hooks mutate them in place.
\<close>

datatype pyval =
    VNone
  | VBool bool
  | VInt int
  | VStr string
  | VList "pyval list"
  | VDict "(string \<times> pyval) list"
  | VInstance

type_synonym pydict = "(string \<times> pyval) list"

text \<open>Python truthiness (\<open>bool(v)\<close>).\<close>

fun truthy :: "pyval \<Rightarrow> bool" where
  "truthy VNone = False"
| "truthy (VBool b) = b"
| "truthy (VInt n) = (n \<noteq> 0)"
| "truthy (VStr s) = (s \<noteq> [])"
| "truthy (VList xs) = (xs \<noteq> [])"
| "truthy (VDict d) = (d \<noteq> [])"
| "truthy VInstance = True"

text \<open>\<open>isinstance(v, dict)\<close>.\<close>

fun is_dict :: "pyval \<Rightarrow> bool" where
  "is_dict (VDict d) = True"
| "is_dict v = False"

text \<open>\<open>d.get(k)\<close>, \<open>d[k] = v\<close> and \<open>d.update(e)\<close> on insertion-ordered dicts.\<close>

definition dict_get :: "pydict \<Rightarrow> string \<Rightarrow> pyval option" where
  "dict_get d k = map_of d k"

fun dict_setitem :: "pydict \<Rightarrow> string \<Rightarrow> pyval \<Rightarrow> pydict" where
  "dict_setitem [] k v = [(k, v)]"
| "dict_setitem ((k', v') # d) k v =
     (if k' = k then (k', v) # d else (k', v') # dict_setitem d k v)"

fun dict_update :: "pydict \<Rightarrow> pydict \<Rightarrow> pydict" where
  "dict_update d [] = d"
| "dict_update d ((k, v) # e) = dict_update (dict_setitem d k v) e"

section \<open>Exceptions\<close>

text \<open>
  \<open>Raised\<close> is any exception deriving from \<open>Exception\<close> that a hook raises,
  \<open>RaisedBase\<close> one deriving from \<open>BaseException\<close> only (the \<open>except Exception\<close>
  clause of \<open>execute_hooks\<close> does not see it). \<open>AttributeError\<close> is what reading
  \<open>__name__\<close> raises on a callable that has none.
\<close>

datatype pyexc =
    ValueError string
  | HTTPException nat string
  | AttributeError
  | Raised string
  | RaisedBase string

fun is_Exception :: "pyexc \<Rightarrow> bool" where
  "is_Exception (RaisedBase d) = False"
| "is_Exception e = True"

section \<open>The hook registry (app/core/hooks.py)\<close>

text \<open>
  A hook is any callable. \<open>h_name\<close> is its \<open>__name__\<close>: a function has one, a
  callable such as a \<open>functools.partial\<close> object has none. Called with the keyword
  context, it returns a value or raises, and it may change the world \<open>'w\<close>:
  everything a hook can reach except the registry itself.
\<close>

record 'w hook =
  h_name :: "string option"
  h_call :: "pydict \<Rightarrow> 'w \<Rightarrow> (pyexc + pyval) \<times> 'w"

text \<open>
  What can be observed of a run: the three logger calls of the module, and the
  call \<open>hook(**context)\<close> itself with the context it receives.
\<close>

datatype event =
    LogInfoRegistered string string string
  | LogDebugExecuting nat string string
  | LogErrorHook string string string pyexc
  | Invoked "string option" pydict

text \<open>\<open>self._hooks\<close>: model name to hook type to the ordered list of hooks.\<close>

type_synonym 'w registry = "string \<rightharpoonup> (string \<rightharpoonup> 'w hook list)"

record 'w state =
  reg_hooks :: "'w registry"
  world :: 'w
  trace :: "event list"

definition BEFORE_CREATE :: string where "BEFORE_CREATE = ''before_create''"
definition AFTER_CREATE :: string where "AFTER_CREATE = ''after_create''"
definition BEFORE_UPDATE :: string where "BEFORE_UPDATE = ''before_update''"
definition AFTER_UPDATE :: string where "AFTER_UPDATE = ''after_update''"
definition BEFORE_DELETE :: string where "BEFORE_DELETE = ''before_delete''"
definition AFTER_DELETE :: string where "AFTER_DELETE = ''after_delete''"

definition VALID_HOOKS :: "string set" where
  "VALID_HOOKS = {BEFORE_CREATE, AFTER_CREATE, BEFORE_UPDATE, AFTER_UPDATE,
                  BEFORE_DELETE, AFTER_DELETE}"

text \<open>\<open>HookRegistry.__init__\<close>: no registration at all.\<close>

definition init_registry :: "'w registry" where
  "init_registry = Map.empty"

text \<open>
  The two ways the module reads a \<open>defaultdict\<close>: \<open>d.get(k, default)\<close> never
  inserts, \<open>d[k]\<close> inserts the factory's value under a missing key.
\<close>

definition dd_get :: "('k \<rightharpoonup> 'v) \<Rightarrow> 'k \<Rightarrow> 'v \<Rightarrow> 'v" where
  "dd_get d k dflt = (case d k of None \<Rightarrow> dflt | Some v \<Rightarrow> v)"

definition dd_getitem :: "('k \<rightharpoonup> 'v) \<Rightarrow> 'k \<Rightarrow> 'v \<Rightarrow> 'v \<times> ('k \<rightharpoonup> 'v)" where
  "dd_getitem d k fresh = (case d k of None \<Rightarrow> (fresh, d(k \<mapsto> fresh)) | Some v \<Rightarrow> (v, d))"

definition log_event :: "event \<Rightarrow> 'w state \<Rightarrow> 'w state" where
  "log_event e s = s\<lparr>trace := trace s @ [e]\<rparr>"

text \<open>
  \<open>register\<close>: an unknown hook type raises \<open>ValueError\<close>; otherwise
  \<open>self._hooks[model_name][hook_type].append(func)\<close> and then one info line, whose
  text reads \<open>func.__name__\<close>: for a callable without a name that read raises
  \<open>AttributeError\<close>, after the append.
\<close>

definition register :: "string \<Rightarrow> string \<Rightarrow> 'w hook \<Rightarrow> 'w state \<Rightarrow> (pyexc + unit) \<times> 'w state" where
  "register hook_type model_name func s =
     (if hook_type \<notin> VALID_HOOKS then (Inl (ValueError hook_type), s)
      else
        let (by_type, hooks1) = dd_getitem (reg_hooks s) model_name Map.empty;
            (lst, by_type1) = dd_getitem by_type hook_type [];
            by_type2 = by_type1(hook_type \<mapsto> lst @ [func]);
            hooks2 = hooks1(model_name \<mapsto> by_type2)
        in (case h_name func of
              None \<Rightarrow> (Inl AttributeError, s\<lparr>reg_hooks := hooks2\<rparr>)
            | Some n \<Rightarrow>
                (Inr (), log_event (LogInfoRegistered hook_type model_name n)
                           (s\<lparr>reg_hooks := hooks2\<rparr>))))"

text \<open>\<open>get_hooks\<close>: \<open>self._hooks.get(model_name, {}).get(hook_type, [])\<close>.\<close>

definition get_hooks :: "string \<Rightarrow> string \<Rightarrow> 'w state \<Rightarrow> 'w hook list \<times> 'w state" where
  "get_hooks hook_type model_name s =
     (dd_get (dd_get (reg_hooks s) model_name Map.empty) hook_type [], s)"

text \<open>
  The \<open>for hook in hooks\<close> loop of \<open>execute_hooks\<close>: call the hook with the
  accumulated context; \<open>None\<close> goes on, a dict is merged into the context, any
  other value is returned at once. An \<open>Exception\<close> is caught: the error line is
  built first, reading \<open>hook.__name__\<close> (which raises \<open>AttributeError\<close> on a callable
  without a name, in place of the exception caught), then the exception is
  raised again. Any other exception passes through.
\<close>

fun hooks_loop :: "string \<Rightarrow> string \<Rightarrow> 'w hook list \<Rightarrow> pydict \<Rightarrow> 'w state \<Rightarrow> (pyexc + pyval) \<times> 'w state" where
  "hooks_loop hook_type model_name [] context s = (Inr (VDict context), s)"
| "hooks_loop hook_type model_name (hook # hooks) context s =
     (let s1 = log_event (Invoked (h_name hook) context) s in
      case h_call hook context (world s1) of
        (Inr result, w) \<Rightarrow>
          (let s2 = s1\<lparr>world := w\<rparr> in
           case result of
             VNone \<Rightarrow> hooks_loop hook_type model_name hooks context s2
           | VDict d \<Rightarrow> hooks_loop hook_type model_name hooks (dict_update context d) s2
           | _ \<Rightarrow> (Inr result, s2))
      | (Inl e, w) \<Rightarrow>
          (let s2 = s1\<lparr>world := w\<rparr> in
           if is_Exception e
           then (case h_name hook of
                   None \<Rightarrow> (Inl AttributeError, s2)
                 | Some n \<Rightarrow> (Inl e, log_event (LogErrorHook hook_type n model_name e) s2))
           else (Inl e, s2)))"

definition execute_hooks :: "string \<Rightarrow> string \<Rightarrow> pydict \<Rightarrow> 'w state \<Rightarrow> (pyexc + pyval) \<times> 'w state" where
  "execute_hooks hook_type model_name context s =
     (let (hooks, s0) = get_hooks hook_type model_name s in
      if hooks = [] then (Inr (VDict context), s0)
      else hooks_loop hook_type model_name hooks context
             (log_event (LogDebugExecuting (length hooks) hook_type model_name) s0))"

section \<open>The generated delete handler (generator/api_gen.py, app/api/post.py)\<close>

text \<open>
  What the hooks of a handler can reach: the attribute dictionary (\<open>__dict__\<close>) of
  the ORM object the handler loaded, and everything else outside the process
  (\<open>'e\<close>). The committed table is a list of rows and is the handler's own: only
  \<open>db.commit()\<close> writes to it.
\<close>

record 'e heap =
  item :: pydict
  ext :: 'e

text \<open>
  \<open>db.query(Model).filter(Model.pk == pk).first()\<close>: the first row whose primary-key
  column equals \<open>pk\<close>, with its position in the table.
\<close>

fun query_first :: "pydict list \<Rightarrow> string \<Rightarrow> pyval \<Rightarrow> (nat \<times> pydict) option" where
  "query_first [] pk_name pk = None"
| "query_first (r # rs) pk_name pk =
     (if dict_get r pk_name = Some pk then Some (0, r)
      else map_option (\<lambda>(i, r'). (Suc i, r')) (query_first rs pk_name pk))"

text \<open>\<open>k.startswith('_')\<close>.\<close>

fun startswith_underscore :: "string \<Rightarrow> bool" where
  "startswith_underscore [] = False"
| "startswith_underscore (c # cs) = (c = CHR ''_'')"

text \<open>\<open>{k: v for k, v in item.__dict__.items() if not k.startswith('_')}\<close>.\<close>

definition instance_data_of :: "pydict \<Rightarrow> pydict" where
  "instance_data_of d = filter (\<lambda>(k, v). \<not> startswith_underscore k) d"

text \<open>\<open>db.delete(item); db.commit()\<close>: the row leaves the table.\<close>

definition remove_row :: "nat \<Rightarrow> pydict list \<Rightarrow> pydict list" where
  "remove_row i rows = take i rows @ drop (Suc i) rows"

text \<open>
  The delete handler. A missing row is a 404. The before_delete hooks run on the
  loaded object; only the value \<open>False\<close> itself (\<open>should_delete is False\<close>) aborts:
  then \<open>db.commit()\<close> writes the object as the hooks left it and nothing is
  removed. Otherwise the row is removed and the after_delete hooks run on the
  snapshot of its public attributes. An exception of a hook leaves the handler
  before any commit that follows it.
\<close>

definition delete_handler ::
  "string \<Rightarrow> string \<Rightarrow> pyval \<Rightarrow> pydict list \<Rightarrow> ('e heap) state
     \<Rightarrow> (pyexc + pyval) \<times> pydict list \<times> ('e heap) state" where
  "delete_handler model_name pk_name pk rows s =
     (case query_first rows pk_name pk of
        None \<Rightarrow> (Inl (HTTPException 404 (model_name @ '' not found'')), rows, s)
      | Some (i, r) \<Rightarrow>
          (let s1 = s\<lparr>world := (world s)\<lparr>item := r\<rparr>\<rparr> in
           case execute_hooks BEFORE_DELETE model_name [(''instance'', VInstance)] s1 of
             (Inl e, s2) \<Rightarrow> (Inl e, rows, s2)
           | (Inr should_delete, s2) \<Rightarrow>
               if should_delete = VBool False
               then (Inr VNone, rows[i := item (world s2)], s2)
               else
                 (let instance_data = instance_data_of (item (world s2));
                      rows' = remove_row i rows
                  in case execute_hooks AFTER_DELETE model_name
                            [(''instance_data'', VDict instance_data)] s2 of
                       (Inl e, s3) \<Rightarrow> (Inl e, rows', s3)
                     | (Inr r3, s3) \<Rightarrow> (Inr VNone, rows', s3))))"
section \<open>Strings\<close>

text \<open>
  Python strings are lists of characters; the characters a string literal of
  this text cannot hold are named. \<open>lower\<close> is \<open>str.lower\<close> on ASCII letters,
  \<open>rstrip_s\<close> is \<open>s.rstrip('s')\<close>, \<open>py_join\<close> is \<open>sep.join(xs)\<close>, \<open>contains\<close> is
  \<open>sub in s\<close>, \<open>string_of_int\<close> is \<open>str(n)\<close> on an integer. Characters are
  bytes: a character beyond ASCII is left as it is by \<open>lower\<close> and \<open>repr_str\<close>.
\<close>

definition dq :: string where "dq = [CHR 0x22]"
definition sq :: string where "sq = [CHR 0x27]"
definition nl :: string where "nl = [CHR 0x0A]"

definition lower_char :: "char \<Rightarrow> char" where
  "lower_char c =
     (case map_of (zip ''ABCDEFGHIJKLMNOPQRSTUVWXYZ'' ''abcdefghijklmnopqrstuvwxyz'') c of
        None \<Rightarrow> c | Some l \<Rightarrow> l)"

definition lower :: "string \<Rightarrow> string" where
  "lower s = map lower_char s"

definition rstrip_s :: "string \<Rightarrow> string" where
  "rstrip_s s = rev (dropWhile (\<lambda>c. c = CHR ''s'') (rev s))"

fun py_join :: "string \<Rightarrow> string list \<Rightarrow> string" where
  "py_join sep [] = []"
| "py_join sep [x] = x"
| "py_join sep (x # y # ys) = x @ sep @ py_join sep (y # ys)"

fun starts_with :: "string \<Rightarrow> string \<Rightarrow> bool" where
  "starts_with [] s = True"
| "starts_with (p # ps) [] = False"
| "starts_with (p # ps) (c # cs) = (p = c \<and> starts_with ps cs)"

fun contains :: "string \<Rightarrow> string \<Rightarrow> bool" where
  "contains sub [] = (sub = [])"
| "contains sub (c # cs) = (starts_with sub (c # cs) \<or> contains sub cs)"

definition digit_char :: "nat \<Rightarrow> char" where
  "digit_char d = ''0123456789'' ! (d mod 10)"

fun string_of_nat :: "nat \<Rightarrow> string" where
  "string_of_nat n =
     (if n < 10 then [digit_char n] else string_of_nat (n div 10) @ [digit_char (n mod 10)])"

definition string_of_int :: "int \<Rightarrow> string" where
  "string_of_int i = (if i < 0 then ''-'' @ string_of_nat (nat (- i)) else string_of_nat (nat i))"

text \<open>
  \<open>repr(s)\<close> of a string: in single quotes, or in double quotes when the string
  holds a single quote and no double quote; the quote, the backslash and the
  control characters escaped.
\<close>

definition hex_digit :: "nat \<Rightarrow> char" where
  "hex_digit d = ''0123456789abcdef'' ! (d mod 16)"

definition repr_char :: "char \<Rightarrow> char \<Rightarrow> string" where
  "repr_char quote c =
     (if c = quote \<or> c = CHR 0x5C then [CHR 0x5C, c]
      else if c = CHR 0x09 then [CHR 0x5C, CHR ''t'']
      else if c = CHR 0x0A then [CHR 0x5C, CHR ''n'']
      else if c = CHR 0x0D then [CHR 0x5C, CHR ''r'']
      else if (of_char c :: nat) < 32 \<or> (of_char c :: nat) = 127
      then [CHR 0x5C, CHR ''x'', hex_digit (of_char c div 16), hex_digit (of_char c mod 16)]
      else [c])"

definition repr_str :: "string \<Rightarrow> string" where
  "repr_str s =
     (let quote = (if CHR 0x27 \<in> set s \<and> CHR 0x22 \<notin> set s then CHR 0x22 else CHR 0x27)
      in [quote] @ concat (map (repr_char quote) s) @ [quote])"

section \<open>Values of a schema document\<close>

text \<open>
  What a YAML document can put where the AST says \<open>Any\<close> (the \<open>default\<close> of a
  field): \<open>None\<close>, booleans, integers, strings, lists, dicts and sets (\<open>!!set\<close>);
  \<open>YOther\<close> is a value of any other type (a float, a date, bytes), given by its
  \<open>str()\<close> and its \<open>repr()\<close>, which are fixed texts.

  A set is printed in its iteration order, which for strings depends on the
  hash seed of the process: \<open>set_order\<close> is that order, as the rearrangement of the
  elements' texts that the running process makes.
\<close>

datatype yval =
    YNone
  | YBool bool
  | YInt int
  | YStr string
  | YList "yval list"
  | YDict "(yval \<times> yval) list"
  | YSet "yval list"
  | YOther string string

type_synonym set_order = "string list \<Rightarrow> string list"

fun py_repr :: "set_order \<Rightarrow> yval \<Rightarrow> string" where
  "py_repr order YNone = ''None''"
| "py_repr order (YBool b) = (if b then ''True'' else ''False'')"
| "py_repr order (YInt i) = string_of_int i"
| "py_repr order (YStr s) = repr_str s"
| "py_repr order (YList xs) = ''['' @ py_join '', '' (map (py_repr order) xs) @ '']''"
| "py_repr order (YDict kvs) =
     ''{'' @ py_join '', '' (map (\<lambda>(k, v). py_repr order k @ '': '' @ py_repr order v) kvs)
       @ ''}''"
| "py_repr order (YSet xs) =
     (if xs = [] then ''set()''
      else ''{'' @ py_join '', '' (order (map (py_repr order) xs)) @ ''}'')"
| "py_repr order (YOther s r) = r"

text \<open>\<open>str(v)\<close>, which is what an f-string prints.\<close>

definition py_str :: "set_order \<Rightarrow> yval \<Rightarrow> string" where
  "py_str order v = (case v of YStr s \<Rightarrow> s | YOther s r \<Rightarrow> s | _ \<Rightarrow> py_repr order v)"

section \<open>The schema AST (generator/parser.py)\<close>

text \<open>
  The three pydantic models. A field's \<open>default\<close> is any value (\<open>YNone\<close> when
  absent). The raw \<open>fields\<close> and \<open>relations\<close> of a schema are what the YAML document
  holds: dicts with string keys.
\<close>

record FieldDefinition =
  f_name :: string
  f_type :: string
  f_primary :: bool
  f_unique :: bool
  f_required :: bool
  f_default :: yval
  f_nullable :: bool
  f_max_length :: "int option"
  f_index :: bool

record RelationDefinition =
  r_type :: string
  r_target :: string
  r_back_populates :: "string option"
  r_foreign_key :: "string option"

record SchemaDefinition =
  s_name :: string
  s_table :: string
  s_fields :: "(string \<times> pydict) list"
  s_relations :: "pydict list"
  s_soft_delete :: bool
  s_timestamps :: bool

section \<open>The schema validator (generator/validator.py)\<close>

definition VALID_TYPES :: "string set" where
  "VALID_TYPES = {''string'', ''integer'', ''float'', ''boolean'', ''datetime'', ''date'',
                  ''time'', ''uuid'', ''text'', ''json'', ''binary''}"

definition VALID_RELATION_TYPES :: "string set" where
  "VALID_RELATION_TYPES = {''one_to_many'', ''many_to_one'', ''many_to_many''}"

text \<open>
  What a \<open>ValidationError\<close> reports, and the two other exceptions the validator
  can leave with: \<open>KeyError\<close> from \<open>field_map[schema.name]\<close>, \<open>TypeError\<close> from a
  membership test on an unhashable value.
\<close>

datatype failure =
    InvalidFieldType string string
  | NoPrimaryKey string
  | MultiplePrimaryKeys string "string list"
  | RequiredAndNullable string
  | InvalidRelationType pyval string
  | MissingTarget string
  | DanglingTarget pyval string

datatype gen_error = ValidationError failure | KeyError string | TypeError

fun hashable :: "pyval \<Rightarrow> bool" where
  "hashable (VList xs) = False"
| "hashable (VDict d) = False"
| "hashable v = True"

text \<open>\<open>v in S\<close> for a set or dict \<open>S\<close> whose keys are strings.\<close>

definition py_in :: "pyval \<Rightarrow> string set \<Rightarrow> gen_error + bool" where
  "py_in v S =
     (if \<not> hashable v then Inl TypeError
      else Inr (case v of VStr s \<Rightarrow> s \<in> S | _ \<Rightarrow> False))"

text \<open>\<open>d.get(k)\<close> with \<open>None\<close> for a missing key.\<close>

definition dict_get_or_none :: "pydict \<Rightarrow> string \<Rightarrow> pyval" where
  "dict_get_or_none d k = (case dict_get d k of None \<Rightarrow> VNone | Some v \<Rightarrow> v)"

definition validate_field_type :: "FieldDefinition \<Rightarrow> gen_error + unit" where
  "validate_field_type field =
     (if f_type field \<notin> VALID_TYPES
      then Inl (ValidationError (InvalidFieldType (f_type field) (f_name field)))
      else Inr ())"

definition validate_primary_key :: "SchemaDefinition \<Rightarrow> FieldDefinition list \<Rightarrow> gen_error + unit" where
  "validate_primary_key schema fields' =
     (let primary_keys = filter f_primary fields' in
      if length primary_keys = 0 then Inl (ValidationError (NoPrimaryKey (s_name schema)))
      else if length primary_keys > 1
      then Inl (ValidationError (MultiplePrimaryKeys (s_name schema) (map f_name primary_keys)))
      else Inr ())"

definition validate_required_nullable :: "FieldDefinition \<Rightarrow> gen_error + unit" where
  "validate_required_nullable field =
     (if f_required field \<and> f_nullable field \<and> \<not> f_primary field
      then Inl (ValidationError (RequiredAndNullable (f_name field)))
      else Inr ())"

text \<open>The loop of \<open>validate_relations\<close> over \<open>schema.relations\<close>.\<close>

fun validate_relations_loop :: "string \<Rightarrow> pydict list \<Rightarrow> gen_error + unit" where
  "validate_relations_loop name [] = Inr ()"
| "validate_relations_loop name (relation # rest) =
     (let rel_type = dict_get_or_none relation ''type'' in
      case py_in rel_type VALID_RELATION_TYPES of
        Inl e \<Rightarrow> Inl e
      | Inr known \<Rightarrow>
          if \<not> known then Inl (ValidationError (InvalidRelationType rel_type name))
          else
            (let target = dict_get_or_none relation ''target'' in
             if \<not> truthy target then Inl (ValidationError (MissingTarget name))
             else validate_relations_loop name rest))"

definition validate_relations :: "SchemaDefinition \<Rightarrow> gen_error + unit" where
  "validate_relations schema = validate_relations_loop (s_name schema) (s_relations schema)"

text \<open>The loop of \<open>validate_schema\<close> over the fields.\<close>

fun validate_fields_loop :: "FieldDefinition list \<Rightarrow> gen_error + unit" where
  "validate_fields_loop [] = Inr ()"
| "validate_fields_loop (field # rest) =
     (case validate_field_type field of
        Inl e \<Rightarrow> Inl e
      | Inr u \<Rightarrow>
          (case validate_required_nullable field of
             Inl e \<Rightarrow> Inl e
           | Inr u' \<Rightarrow> validate_fields_loop rest))"

definition validate_schema :: "SchemaDefinition \<Rightarrow> FieldDefinition list \<Rightarrow> gen_error + unit" where
  "validate_schema schema fields' =
     (case validate_fields_loop fields' of
        Inl e \<Rightarrow> Inl e
      | Inr u \<Rightarrow>
          (case validate_primary_key schema fields' of
             Inl e \<Rightarrow> Inl e
           | Inr u' \<Rightarrow> validate_relations schema))"

text \<open>The first loop of \<open>validate_all\<close>: every schema with \<open>field_map[schema.name]\<close>.\<close>

fun validate_each :: "(string \<rightharpoonup> FieldDefinition list) \<Rightarrow> SchemaDefinition list \<Rightarrow> gen_error + unit" where
  "validate_each field_map [] = Inr ()"
| "validate_each field_map (schema # rest) =
     (case field_map (s_name schema) of
        None \<Rightarrow> Inl (KeyError (s_name schema))
      | Some fields' \<Rightarrow>
          (case validate_schema schema fields' of
             Inl e \<Rightarrow> Inl e
           | Inr u \<Rightarrow> validate_each field_map rest))"

text \<open>
  The second loop: \<open>if target and target not in self.schemas\<close>, for every relation
  of every schema. \<open>known\<close> is the key set of \<open>self.schemas\<close>.
\<close>

fun check_targets :: "string set \<Rightarrow> string \<Rightarrow> pydict list \<Rightarrow> gen_error + unit" where
  "check_targets known name [] = Inr ()"
| "check_targets known name (relation # rest) =
     (let target = dict_get_or_none relation ''target'' in
      if truthy target
      then (case py_in target known of
              Inl e \<Rightarrow> Inl e
            | Inr found \<Rightarrow>
                if \<not> found then Inl (ValidationError (DanglingTarget target name))
                else check_targets known name rest)
      else check_targets known name rest)"

fun check_all_targets :: "string set \<Rightarrow> SchemaDefinition list \<Rightarrow> gen_error + unit" where
  "check_all_targets known [] = Inr ()"
| "check_all_targets known (schema # rest) =
     (case check_targets known (s_name schema) (s_relations schema) of
        Inl e \<Rightarrow> Inl e
      | Inr u \<Rightarrow> check_all_targets known rest)"

definition validate_all :: "SchemaDefinition list \<Rightarrow> (string \<rightharpoonup> FieldDefinition list) \<Rightarrow> gen_error + unit" where
  "validate_all schemas field_map =
     (let known = set (map s_name schemas) in
      case validate_each field_map schemas of
        Inl e \<Rightarrow> Inl e
      | Inr u \<Rightarrow> check_all_targets known schemas)"

section \<open>The model generator (generator/model_gen.py)\<close>

text \<open>
  The generator object holds its output directory only; no method below reads
  it. What the text of a model can depend on besides the arguments is the
  process it runs in: \<open>_generate_field_code\<close> prints a default that is neither
  \<open>None\<close> nor a string with \<open>str()\<close>, so the set order of the process is a
  parameter of it and of \<open>generate_model\<close>.
\<close>

record ModelGenerator =
  mg_output_dir :: string

definition TYPE_MAPPING :: "(string \<times> string) list" where
  "TYPE_MAPPING =
     [(''string'', ''String''), (''integer'', ''Integer''), (''float'', ''Float''),
      (''boolean'', ''Boolean''), (''datetime'', ''DateTime''), (''date'', ''Date''),
      (''time'', ''Time''), (''uuid'', ''UUID''), (''text'', ''Text''), (''json'', ''JSON''),
      (''binary'', ''LargeBinary'')]"

definition get_sqlalchemy_type :: "FieldDefinition \<Rightarrow> string" where
  "get_sqlalchemy_type field =
     (let sa_type = (case map_of TYPE_MAPPING (f_type field) of
                       None \<Rightarrow> ''String'' | Some t \<Rightarrow> t)
      in case f_max_length field of
           None \<Rightarrow> sa_type
         | Some n \<Rightarrow>
             if f_type field = ''string'' \<and> n \<noteq> 0
             then ''String('' @ string_of_int n @ '')''
             else sa_type)"

definition generate_field_code :: "set_order \<Rightarrow> FieldDefinition \<Rightarrow> string" where
  "generate_field_code order field =
     (let sa_type = get_sqlalchemy_type field;
          args = [sa_type]
            @ (if f_primary field
               then [''primary_key=True'']
                    @ (if f_type field = ''uuid'' then [''default=uuid.uuid4''] else [])
               else [])
            @ (if f_unique field then [''unique=True''] else [])
            @ (if \<not> f_nullable field then [''nullable=False''] else [])
            @ (if f_index field then [''index=True''] else [])
            @ (if f_default field \<noteq> YNone
               then (case f_default field of
                       YStr s \<Rightarrow> [''default='' @ dq @ s @ dq]
                     | YBool b \<Rightarrow> [''default='' @ py_str order (YBool b)]
                     | v \<Rightarrow> [''default='' @ py_str order v])
               else [])
      in ''    '' @ f_name field @ '' = Column('' @ py_join '', '' args @ '')'')"

text \<open>\<open>x or d\<close> on an optional string.\<close>

definition or_else :: "string option \<Rightarrow> string \<Rightarrow> string" where
  "or_else x d = (case x of None \<Rightarrow> d | Some s \<Rightarrow> if s = [] then d else s)"

definition generate_relation_code :: "RelationDefinition \<Rightarrow> string \<Rightarrow> string" where
  "generate_relation_code relation schema_name =
     (let target = r_target relation in
      if r_type relation = ''one_to_many'' then
        (let back_pop = or_else (r_back_populates relation) (lower schema_name @ ''s'') in
         ''    '' @ lower target @ ''s = relationship('' @ dq @ target @ dq
           @ '', back_populates='' @ dq @ back_pop @ dq @ '')'')
      else if r_type relation = ''many_to_one'' then
        (let back_pop = or_else (r_back_populates relation) (lower target);
             fk = or_else (r_foreign_key relation) (lower target @ ''s.id'')
         in ''    '' @ lower target @ ''_id = Column(UUID, ForeignKey('' @ dq @ fk @ dq @ ''))'' @ nl
            @ ''    '' @ lower target @ '' = relationship('' @ dq @ target @ dq
            @ '', back_populates='' @ dq @ back_pop @ dq @ '')'')
      else if r_type relation = ''many_to_many'' then
        (let back_pop = or_else (r_back_populates relation) (lower schema_name @ ''s'') in
         ''    '' @ lower target @ ''s = relationship('' @ dq @ target @ dq
           @ '', secondary='' @ dq @ lower schema_name @ ''_'' @ lower target @ dq
           @ '', back_populates='' @ dq @ back_pop @ dq @ '')'')
      else [])"

definition generate_model ::
  "set_order \<Rightarrow> ModelGenerator \<Rightarrow> SchemaDefinition \<Rightarrow> FieldDefinition list
     \<Rightarrow> RelationDefinition list \<Rightarrow> string" where
  "generate_model order self schema fields' relations =
     (let imports =
            [''from sqlalchemy import Column, String, Integer, Float, Boolean, DateTime, Date, Time, Text, JSON, LargeBinary, ForeignKey, UUID'',
             ''from sqlalchemy.orm import relationship'',
             ''from datetime import datetime'',
             ''from app.core.database import Base'',
             ''import uuid''];
          field_lines = map (generate_field_code order) fields';
          timestamp_fields =
            (if s_timestamps schema
             then [''    created_at = Column(DateTime, default=datetime.utcnow, nullable=False)'',
                   ''    updated_at = Column(DateTime, default=datetime.utcnow, onupdate=datetime.utcnow, nullable=False)'']
             else []);
          soft_delete_field =
            (if s_soft_delete schema
             then [''    deleted_at = Column(DateTime, nullable=True)'']
             else []);
          relation_lines = map (\<lambda>rel. generate_relation_code rel (s_name schema)) relations;
          class_body = py_join nl
            (field_lines @ timestamp_fields @ soft_delete_field @ relation_lines)
      in concat
           [dq @ dq @ dq @ ''Auto-generated model for '' @ s_name schema @ ''.'' @ dq @ dq @ dq @ nl,
            py_join nl imports @ nl,
            nl,
            nl,
            ''class '' @ s_name schema @ ''(Base):'' @ nl,
            ''    '' @ dq @ dq @ dq @ ''SQLAlchemy model for '' @ s_name schema @ ''.'' @ dq @ dq @ dq @ nl,
            ''    __tablename__ = '' @ dq @ s_table schema @ dq @ nl,
            nl,
            class_body @ nl])"

section \<open>The API generator (generator/api_gen.py)\<close>

record APIGenerator =
  ag_output_dir :: string

definition type_map :: "(string \<times> string) list" where
  "type_map =
     [(''string'', ''str''), (''integer'', ''int''), (''float'', ''float''),
      (''boolean'', ''bool''), (''datetime'', ''datetime''), (''date'', ''date''),
      (''time'', ''time''), (''uuid'', ''UUID''), (''text'', ''str''), (''json'', ''dict''),
      (''binary'', ''bytes'')]"

definition get_python_type :: "FieldDefinition \<Rightarrow> string" where
  "get_python_type field =
     (let python_type = (case map_of type_map (f_type field) of
                           None \<Rightarrow> ''str'' | Some t \<Rightarrow> t)
      in if f_nullable field \<and> \<not> f_primary field then python_type @ '' | None''
         else python_type)"

text \<open>The loop of \<open>_generate_pydantic_schema\<close> over the fields: one line a field.\<close>

fun pydantic_field_lines :: "string \<Rightarrow> FieldDefinition list \<Rightarrow> string list" where
  "pydantic_field_lines schema_type [] = []"
| "pydantic_field_lines schema_type (field # rest) =
     (if schema_type = ''Create'' \<and> f_primary field
      then pydantic_field_lines schema_type rest
      else
        (let python_type = get_python_type field;
             (python_type1, dflt) =
               (if schema_type = ''Update''
                then ((if \<not> contains ''None'' python_type then python_type @ '' | None''
                       else python_type), '' = None'')
                else if \<not> f_required field \<and> \<not> f_primary field
                then (python_type, '' = None'')
                else (python_type, []))
         in (''    '' @ f_name field @ '': '' @ python_type1 @ dflt)
              # pydantic_field_lines schema_type rest))"

text \<open>The lines of the class body: the field lines, and the timestamps of a response.\<close>

definition pydantic_lines :: "SchemaDefinition \<Rightarrow> FieldDefinition list \<Rightarrow> string \<Rightarrow> string list" where
  "pydantic_lines schema fields' schema_type =
     pydantic_field_lines schema_type fields'
       @ (if schema_type = ''Response'' \<and> s_timestamps schema
          then [''    created_at: datetime'', ''    updated_at: datetime'']
          else [])"

definition generate_pydantic_schema :: "SchemaDefinition \<Rightarrow> FieldDefinition list \<Rightarrow> string \<Rightarrow> string" where
  "generate_pydantic_schema schema fields' schema_type =
     (let field_lines = pydantic_lines schema fields' schema_type;
          class_body = (if field_lines \<noteq> [] then py_join nl field_lines else ''    pass'')
      in concat
           [''class '' @ s_name schema @ schema_type @ ''(BaseModel):'' @ nl,
            ''    '' @ dq @ dq @ dq @ ''Pydantic schema for '' @ s_name schema @ '' '' @ lower schema_type @ ''.'' @ dq @ dq @ dq @ nl,
            class_body @ nl,
            ''    '' @ nl,
            ''    class Config:'' @ nl,
            ''        from_attributes = True'' @ nl])"

text \<open>\<open>next((f for f in fields if f.primary), None)\<close>.\<close>

definition first_primary :: "FieldDefinition list \<Rightarrow> FieldDefinition option" where
  "first_primary fields' = find f_primary fields'"

text \<open>
  The three texts \<open>generate_router\<close> builds, each as a function of the local
  variables its f-string reads: the imports, the three data-transfer types, and
  the five handlers.
\<close>

definition router_imports :: "string \<Rightarrow> string" where
  "router_imports model_name = concat
       [dq @ dq @ dq @ ''Auto-generated CRUD router for '' @ model_name @ ''.'' @ dq @ dq @ dq @ nl,
        ''from fastapi import APIRouter, Depends, HTTPException, Query'' @ nl,
        ''from sqlalchemy.orm import Session'' @ nl,
        ''from typing import List'' @ nl,
        ''from datetime import datetime, date, time'' @ nl,
        ''from uuid import UUID'' @ nl,
        ''from pydantic import BaseModel'' @ nl,
        nl,
        ''from app.core.database import get_db'' @ nl,
        ''from app.models.'' @ lower model_name @ '' import '' @ model_name @ nl,
        ''from app.core.hooks import hook_registry'' @ nl]"

definition router_schemas :: "string \<Rightarrow> string \<Rightarrow> string \<Rightarrow> string" where
  "router_schemas create_schema update_schema response_schema =
     nl @ create_schema @ nl @ nl @ update_schema @ nl @ nl @ response_schema"

definition router_code_text :: "string \<Rightarrow> string \<Rightarrow> string \<Rightarrow> string \<Rightarrow> string \<Rightarrow> string" where
  "router_code_text model_name table_name route_prefix pk_name pk_type = concat
       [nl,
        ''router = APIRouter(prefix='' @ dq @ route_prefix @ dq @ '', tags=['' @ dq @ table_name @ dq @ ''])'' @ nl,
        nl,
        nl,
        ''@router.post('' @ dq @ ''/'' @ dq @ '', response_model='' @ model_name @ ''Response, status_code=201)'' @ nl,
        ''def create_'' @ rstrip_s table_name @ ''('' @ nl,
        ''    item: '' @ model_name @ ''Create,'' @ nl,
        ''    db: Session = Depends(get_db)'' @ nl,
        ''):'' @ nl,
        ''    '' @ dq @ dq @ dq @ ''Create a new '' @ model_name @ ''.'' @ dq @ dq @ dq @ nl,
        ''    # Execute before_create hooks'' @ nl,
        ''    data = item.model_dump()'' @ nl,
        ''    hook_registry.execute_hooks('' @ dq @ ''before_create'' @ dq @ '', '' @ dq @ model_name @ dq @ '', data=data)'' @ nl,
        ''    '' @ nl,
        ''    db_item = '' @ model_name @ ''(**data)'' @ nl,
        ''    db.add(db_item)'' @ nl,
        ''    db.commit()'' @ nl,
        ''    db.refresh(db_item)'' @ nl,
        ''    '' @ nl,
        ''    # Execute after_create hooks'' @ nl,
        ''    hook_registry.execute_hooks('' @ dq @ ''after_create'' @ dq @ '', '' @ dq @ model_name @ dq @ '', instance=db_item)'' @ nl,
        ''    '' @ nl,
        ''    return db_item'' @ nl,
        nl,
        nl,
        ''@router.get('' @ dq @ ''/'' @ dq @ '', response_model=List['' @ model_name @ ''Response])'' @ nl,
        ''def list_'' @ table_name @ ''('' @ nl,
        ''    skip: int = Query(0, ge=0),'' @ nl,
        ''    limit: int = Query(100, ge=1, le=1000),'' @ nl,
        ''    db: Session = Depends(get_db)'' @ nl,
        ''):'' @ nl,
        ''    '' @ dq @ dq @ dq @ ''List all '' @ table_name @ '' with pagination.'' @ dq @ dq @ dq @ nl,
        ''    items = db.query('' @ model_name @ '').offset(skip).limit(limit).all()'' @ nl,
        ''    return items'' @ nl,
        nl,
        nl,
        ''@router.get('' @ dq @ ''/{'' @ pk_name @ ''}'' @ dq @ '', response_model='' @ model_name @ ''Response)'' @ nl,
        ''def get_'' @ rstrip_s table_name @ ''('' @ nl,
        ''    '' @ pk_name @ '': '' @ pk_type @ '','' @ nl,
        ''    db: Session = Depends(get_db)'' @ nl,
        ''):'' @ nl,
        ''    '' @ dq @ dq @ dq @ ''Get a single '' @ model_name @ '' by ID.'' @ dq @ dq @ dq @ nl,
        ''    item = db.query('' @ model_name @ '').filter('' @ model_name @ ''.'' @ pk_name @ '' == '' @ pk_name @ '').first()'' @ nl,
        ''    if not item:'' @ nl,
        ''        raise HTTPException(status_code=404, detail='' @ dq @ model_name @ '' not found'' @ dq @ '')'' @ nl,
        ''    return item'' @ nl,
        nl,
        nl,
        ''@router.put('' @ dq @ ''/{'' @ pk_name @ ''}'' @ dq @ '', response_model='' @ model_name @ ''Response)'' @ nl,
        ''def update_'' @ rstrip_s table_name @ ''('' @ nl,
        ''    '' @ pk_name @ '': '' @ pk_type @ '','' @ nl,
        ''    item_update: '' @ model_name @ ''Update,'' @ nl,
        ''    db: Session = Depends(get_db)'' @ nl,
        ''):'' @ nl,
        ''    '' @ dq @ dq @ dq @ ''Update a '' @ model_name @ ''.'' @ dq @ dq @ dq @ nl,
        ''    item = db.query('' @ model_name @ '').filter('' @ model_name @ ''.'' @ pk_name @ '' == '' @ pk_name @ '').first()'' @ nl,
        ''    if not item:'' @ nl,
        ''        raise HTTPException(status_code=404, detail='' @ dq @ model_name @ '' not found'' @ dq @ '')'' @ nl,
        ''    '' @ nl,
        ''    # Store old data for audit hooks'' @ nl,
        ''    old_data = {k: v for k, v in item.__dict__.items() if not k.startswith('' @ sq @ ''_'' @ sq @ '')}'' @ nl,
        ''    '' @ nl,
        ''    # Execute before_update hooks'' @ nl,
        ''    update_data = item_update.model_dump(exclude_unset=True)'' @ nl,
        ''    hook_registry.execute_hooks('' @ dq @ ''before_update'' @ dq @ '', '' @ dq @ model_name @ dq @ '', instance=item, data=update_data)'' @ nl,
        ''    '' @ nl,
        ''    for field, value in update_data.items():'' @ nl,
        ''        setattr(item, field, value)'' @ nl,
        ''    '' @ nl,
        ''    db.commit()'' @ nl,
        ''    db.refresh(item)'' @ nl,
        ''    '' @ nl,
        ''    # Execute after_update hooks'' @ nl,
        ''    hook_registry.execute_hooks('' @ dq @ ''after_update'' @ dq @ '', '' @ dq @ model_name @ dq @ '', instance=item, old_data=old_data)'' @ nl,
        ''    '' @ nl,
        ''    return item'' @ nl,
        nl,
        nl,
        ''@router.delete('' @ dq @ ''/{'' @ pk_name @ ''}'' @ dq @ '', status_code=204)'' @ nl,
        ''def delete_'' @ rstrip_s table_name @ ''('' @ nl,
        ''    '' @ pk_name @ '': '' @ pk_type @ '','' @ nl,
        ''    db: Session = Depends(get_db)'' @ nl,
        ''):'' @ nl,
        ''    '' @ dq @ dq @ dq @ ''Delete a '' @ model_name @ ''.'' @ dq @ dq @ dq @ nl,
        ''    item = db.query('' @ model_name @ '').filter('' @ model_name @ ''.'' @ pk_name @ '' == '' @ pk_name @ '').first()'' @ nl,
        ''    if not item:'' @ nl,
        ''        raise HTTPException(status_code=404, detail='' @ dq @ model_name @ '' not found'' @ dq @ '')'' @ nl,
        ''    '' @ nl,
        ''    # Execute before_delete hooks (can abort deletion)'' @ nl,
        ''    should_delete = hook_registry.execute_hooks('' @ dq @ ''before_delete'' @ dq @ '', '' @ dq @ model_name @ dq @ '', instance=item)'' @ nl,
        ''    '' @ nl,
        ''    if should_delete is False:'' @ nl,
        ''        # Hook aborted deletion (e.g., soft delete)'' @ nl,
        ''        db.commit()  # Commit any changes made by hooks'' @ nl,
        ''        return None'' @ nl,
        ''    '' @ nl,
        ''    # Store instance data for after_delete hooks'' @ nl,
        ''    instance_data = {k: v for k, v in item.__dict__.items() if not k.startswith('' @ sq @ ''_'' @ sq @ '')}'' @ nl,
        ''    '' @ nl,
        ''    db.delete(item)'' @ nl,
        ''    db.commit()'' @ nl,
        ''    '' @ nl,
        ''    # Execute after_delete hooks'' @ nl,
        ''    hook_registry.execute_hooks('' @ dq @ ''after_delete'' @ dq @ '', '' @ dq @ model_name @ dq @ '', instance_data=instance_data)'' @ nl,
        ''    '' @ nl,
        ''    return None'' @ nl]"

definition generate_router ::
  "APIGenerator \<Rightarrow> SchemaDefinition \<Rightarrow> FieldDefinition list \<Rightarrow> string" where
  "generate_router self schema fields' =
     (let model_name = s_name schema;
          table_name = s_table schema;
          route_prefix = ''/'' @ table_name;
          pk_field = first_primary fields';
          pk_name = (case pk_field of Some f \<Rightarrow> f_name f | None \<Rightarrow> ''id'');
          pk_type = (case pk_field of Some f \<Rightarrow> get_python_type f | None \<Rightarrow> ''UUID'');
          imports = router_imports model_name;
          create_schema = generate_pydantic_schema schema fields' ''Create'';
          update_schema = generate_pydantic_schema schema fields' ''Update'';
          response_schema = generate_pydantic_schema schema fields' ''Response'';
          schemas = router_schemas create_schema update_schema response_schema;
          router_code = router_code_text model_name table_name route_prefix pk_name pk_type
      in imports @ schemas @ router_code)"
section \<open>Vocabulary of the properties, and concrete hooks and states\<close>

text \<open>
  ``Every hook of the list returns \<open>None\<close> or a mapping'': each hook, called in
  turn with the context and on the world its predecessors left, returns \<open>None\<close>
  or a dict.
\<close>

fun all_proceed :: "'w hook list \<Rightarrow> pydict \<Rightarrow> 'w \<Rightarrow> bool" where
  "all_proceed [] c w = True"
| "all_proceed (h # hs) c w =
     (case h_call h c w of
        (Inr VNone, w') \<Rightarrow> all_proceed hs c w'
      | (Inr (VDict d), w') \<Rightarrow> all_proceed hs (dict_update c d) w'
      | _ \<Rightarrow> False)"

text \<open>
  A hook that returns a fixed value, one that raises, one that sets an
  attribute; and a callable without \<open>__name__\<close> that raises.
\<close>

definition const_hook :: "string \<Rightarrow> pyval \<Rightarrow> 'w hook" where
  "const_hook n v = \<lparr>h_name = Some n, h_call = (\<lambda>context w. (Inr v, w))\<rparr>"

definition raising_hook :: "string \<Rightarrow> pyexc \<Rightarrow> 'w hook" where
  "raising_hook n e = \<lparr>h_name = Some n, h_call = (\<lambda>context w. (Inl e, w))\<rparr>"

definition marking_hook :: "string \<Rightarrow> string \<Rightarrow> pyval \<Rightarrow> pyval \<Rightarrow> ('e heap) hook" where
  "marking_hook n k v res =
     \<lparr>h_name = Some n, h_call = (\<lambda>context w. (Inr res, w\<lparr>item := dict_setitem (item w) k v\<rparr>))\<rparr>"

definition nameless_raising_hook :: "pyexc \<Rightarrow> 'w hook" where
  "nameless_raising_hook e = \<lparr>h_name = None, h_call = (\<lambda>context w. (Inl e, w))\<rparr>"

text \<open>The process right after start: an empty registry, nothing logged.\<close>

definition start_state :: "'w \<Rightarrow> 'w state" where
  "start_state w = \<lparr>reg_hooks = init_registry, world = w, trace = []\<rparr>"

definition demo_raise :: "unit state" where
  "demo_raise =
     snd (register BEFORE_UPDATE ''User'' (const_hook ''never'' (VBool False))
       (snd (register BEFORE_UPDATE ''User'' (raising_hook ''boom'' (Raised ''E''))
         (snd (register BEFORE_UPDATE ''User'' (const_hook ''quiet'' VNone)
           (start_state ()))))))"

definition demo_nameless :: "unit state" where
  "demo_nameless =
     snd (register BEFORE_UPDATE ''User'' (const_hook ''never'' (VBool False))
       (snd (register BEFORE_UPDATE ''User'' (nameless_raising_hook (Raised ''E''))
         (snd (register BEFORE_UPDATE ''User'' (const_hook ''quiet'' VNone)
           (start_state ()))))))"

definition demo_order :: "unit state" where
  "demo_order =
     snd (register AFTER_CREATE ''Entity'' (const_hook ''B'' VNone)
       (snd (register AFTER_CREATE ''Entity'' (const_hook ''A'' (VDict [(''extra'', VInt 1)]))
          (start_state ()))))"

definition demo_before_delete :: "(unit heap) hook \<Rightarrow> (unit heap) state" where
  "demo_before_delete h =
     snd (register BEFORE_DELETE ''Post'' h (start_state \<lparr>item = [], ext = ()\<rparr>))"
section \<open>Vocabulary of the generator properties, and concrete schemas\<close>

text \<open>
  The acceptance condition in the words of the specification: the validator accepts when, in
  every schema, exactly one field is primary, every field type is one of the
  eleven, no field is required and nullable unless primary, and the target of
  every relation names a schema of the set.
\<close>

definition target_exists :: "string set \<Rightarrow> pydict \<Rightarrow> bool" where
  "target_exists known rel =
     (case dict_get rel ''target'' of Some (VStr t) \<Rightarrow> t \<in> known | _ \<Rightarrow> False)"

definition claimed_valid :: "SchemaDefinition list \<Rightarrow> (string \<rightharpoonup> FieldDefinition list) \<Rightarrow> bool" where
  "claimed_valid schemas field_map =
     (\<forall>s \<in> set schemas.
        case field_map (s_name s) of
          None \<Rightarrow> False
        | Some fs \<Rightarrow>
            length (filter f_primary fs) = 1
            \<and> (\<forall>f \<in> set fs. f_type f \<in> VALID_TYPES)
            \<and> (\<forall>f \<in> set fs. \<not> (f_required f \<and> f_nullable f \<and> \<not> f_primary f))
            \<and> (\<forall>rel \<in> set (s_relations s). target_exists (set (map s_name schemas)) rel))"

text \<open>
  The two further conditions of the code: the type of a relation is one of the
  three kinds, and its target is a non-empty string.
\<close>

definition relation_type_ok :: "pydict \<Rightarrow> bool" where
  "relation_type_ok rel =
     (case dict_get rel ''type'' of Some (VStr t) \<Rightarrow> t \<in> VALID_RELATION_TYPES | _ \<Rightarrow> False)"

definition target_nonempty :: "pydict \<Rightarrow> bool" where
  "target_nonempty rel =
     (case dict_get rel ''target'' of Some (VStr t) \<Rightarrow> t \<noteq> [] | _ \<Rightarrow> False)"

text \<open>
  The lines of the data-transfer types. \<open>python_base\<close> is the entry of \<open>type_map\<close>
  (\<open>str\<close> for an unknown type); \<open>create_line\<close> is the line of a non-primary field
  in the Create type, \<open>update_line\<close> the line of a field in the Update type.
\<close>

definition python_base :: "string \<Rightarrow> string" where
  "python_base t = (case map_of type_map t of None \<Rightarrow> ''str'' | Some p \<Rightarrow> p)"

definition create_line :: "FieldDefinition \<Rightarrow> string" where
  "create_line f =
     ''    '' @ f_name f @ '': '' @ get_python_type f @ (if f_required f then [] else '' = None'')"

definition update_line :: "FieldDefinition \<Rightarrow> string" where
  "update_line f = ''    '' @ f_name f @ '': '' @ python_base (f_type f) @ '' | None = None''"

text \<open>
  The text of a data-transfer type before and after its class body: the class
  line and the docstring, and the \<open>Config\<close> block.
\<close>

definition pydantic_head :: "SchemaDefinition \<Rightarrow> string \<Rightarrow> string" where
  "pydantic_head schema schema_type =
     ''class '' @ s_name schema @ schema_type @ ''(BaseModel):'' @ nl
     @ ''    '' @ dq @ dq @ dq @ ''Pydantic schema for '' @ s_name schema @ '' ''
       @ lower schema_type @ ''.'' @ dq @ dq @ dq @ nl"

definition pydantic_tail :: string where
  "pydantic_tail =
     ''    '' @ nl
     @ ''    class Config:'' @ nl
     @ ''        from_attributes = True'' @ nl"

text \<open>
  A value that holds no set, at any depth. What the router reads of a field:
  its name, type and the flags primary, nullable and required.
\<close>

fun set_free :: "yval \<Rightarrow> bool" where
  "set_free (YSet xs) = False"
| "set_free (YList xs) = list_all set_free xs"
| "set_free (YDict kvs) = list_all (\<lambda>(k, v). set_free k \<and> set_free v) kvs"
| "set_free v = True"

definition router_view :: "FieldDefinition \<Rightarrow> string \<times> string \<times> bool \<times> bool \<times> bool" where
  "router_view f = (f_name f, f_type f, f_primary f, f_nullable f, f_required f)"

text \<open>Two processes: one iterates a set in the order written, the other in reverse.\<close>

definition order_as_is :: set_order where
  "order_as_is xs = xs"

definition order_reversed :: set_order where
  "order_reversed xs = rev xs"

text \<open>
  The text of a list of lines, each ended by a newline; the text of a generated
  model before its class body; the three cross-cutting column lines.
\<close>

definition lines_text :: "string list \<Rightarrow> string" where
  "lines_text ls = concat (map (\<lambda>l. l @ nl) ls)"

definition model_preamble :: "SchemaDefinition \<Rightarrow> string" where
  "model_preamble schema =
     dq @ dq @ dq @ ''Auto-generated model for '' @ s_name schema @ ''.'' @ dq @ dq @ dq @ nl
     @ ''from sqlalchemy import Column, String, Integer, Float, Boolean, DateTime, Date, Time, Text, JSON, LargeBinary, ForeignKey, UUID'' @ nl
     @ ''from sqlalchemy.orm import relationship'' @ nl
     @ ''from datetime import datetime'' @ nl
     @ ''from app.core.database import Base'' @ nl
     @ ''import uuid'' @ nl
     @ nl
     @ nl
     @ ''class '' @ s_name schema @ ''(Base):'' @ nl
     @ ''    '' @ dq @ dq @ dq @ ''SQLAlchemy model for '' @ s_name schema @ ''.'' @ dq @ dq @ dq @ nl
     @ ''    __tablename__ = '' @ dq @ s_table schema @ dq @ nl
     @ nl"

definition created_at_line :: string where
  "created_at_line = ''    created_at = Column(DateTime, default=datetime.utcnow, nullable=False)''"

definition updated_at_line :: string where
  "updated_at_line = ''    updated_at = Column(DateTime, default=datetime.utcnow, onupdate=datetime.utcnow, nullable=False)''"

definition deleted_at_line :: string where
  "deleted_at_line = ''    deleted_at = Column(DateTime, nullable=True)''"

text \<open>
  Concrete schemas: the Widget of the specification's scenario (and a field
  whose default is the set of \<open>a\<close> and \<open>b\<close>), an Owner with a one_to_many relation
  to it, and a Gadget whose relation has an unknown type.
\<close>

definition widget_id :: FieldDefinition where
  "widget_id = \<lparr>f_name = ''id'', f_type = ''uuid'', f_primary = True, f_unique = False,
     f_required = False, f_default = YNone, f_nullable = True, f_max_length = None,
     f_index = False\<rparr>"

definition widget_title :: FieldDefinition where
  "widget_title = \<lparr>f_name = ''title'', f_type = ''string'', f_primary = False, f_unique = False,
     f_required = True, f_default = YNone, f_nullable = False, f_max_length = None,
     f_index = False\<rparr>"

definition widget_tags :: FieldDefinition where
  "widget_tags = \<lparr>f_name = ''tags'', f_type = ''json'', f_primary = False, f_unique = False,
     f_required = False, f_default = YSet [YStr ''a'', YStr ''b''], f_nullable = True,
     f_max_length = None, f_index = False\<rparr>"

definition widget :: SchemaDefinition where
  "widget = \<lparr>s_name = ''Widget'', s_table = ''widgets'',
     s_fields = [(''id'', [(''type'', VStr ''uuid''), (''primary'', VBool True)]),
                 (''title'', [(''type'', VStr ''string''), (''required'', VBool True),
                              (''nullable'', VBool False)])],
     s_relations = [], s_soft_delete = False, s_timestamps = True\<rparr>"

definition owner :: SchemaDefinition where
  "owner = \<lparr>s_name = ''Owner'', s_table = ''owners'',
     s_fields = [(''id'', [(''type'', VStr ''uuid''), (''primary'', VBool True)])],
     s_relations = [[(''type'', VStr ''one_to_many''), (''target'', VStr ''Widget'')]],
     s_soft_delete = True, s_timestamps = True\<rparr>"

definition owner_widgets :: RelationDefinition where
  "owner_widgets = \<lparr>r_type = ''one_to_many'', r_target = ''Widget'',
     r_back_populates = None, r_foreign_key = None\<rparr>"

definition gadget :: SchemaDefinition where
  "gadget = \<lparr>s_name = ''Gadget'', s_table = ''gadgets'',
     s_fields = [(''id'', [(''type'', VStr ''uuid''), (''primary'', VBool True)])],
     s_relations = [[(''type'', VStr ''one_to_one''), (''target'', VStr ''Widget'')]],
     s_soft_delete = False, s_timestamps = True\<rparr>"

definition demo_field_map :: "string \<rightharpoonup> FieldDefinition list" where
  "demo_field_map =
     map_of [(''Widget'', [widget_id, widget_title]), (''Owner'', [widget_id]),
             (''Gadget'', [widget_id])]"
section \<open>Properties of the hook registry and of the delete handler\<close>

lemma world_log_event [simp]: "world (log_event e s) = world s"
  by (simp add: log_event_def)

lemma reg_hooks_log_event [simp]: "reg_hooks (log_event e s) = reg_hooks s"
  by (simp add: log_event_def)

lemma trace_log_event [simp]: "trace (log_event e s) = trace s @ [e]"
  by (simp add: log_event_def)

lemma get_hooks_state [simp]: "snd (get_hooks hook_type model_name s) = s"
  by (simp add: get_hooks_def)

lemma hooks_loop_reg_hooks:
  "reg_hooks (snd (hooks_loop hook_type model_name hs c s)) = reg_hooks s"
proof (induction hs arbitrary: c s)
  case Nil
  then show ?case by simp
next
  case (Cons h hs)
  show ?case
  proof (cases "h_call h c (world s)")
    case (Pair out w)
    then show ?thesis
      using Cons.IH by (cases out) (auto simp: Let_def split: pyval.splits option.splits)
  qed
qed

lemma hooks_loop_append:
  "hooks_loop hook_type model_name pre c s = (Inr (VDict c1), s1) \<Longrightarrow>
   hooks_loop hook_type model_name (pre @ post) c s = hooks_loop hook_type model_name post c1 s1"
proof (induction pre arbitrary: c s)
  case Nil
  then show ?case by simp
next
  case (Cons h hs)
  show ?case
  proof (cases "h_call h c (world s)")
    case (Pair out w)
    then show ?thesis
      using Cons.prems Cons.IH
      by (cases out) (auto simp: Let_def split: pyval.splits option.splits if_splits)
  qed
qed

lemma hooks_loop_completes_iff:
  "(\<exists>c1 s1. hooks_loop hook_type model_name hs c s = (Inr (VDict c1), s1)) \<longleftrightarrow>
   all_proceed hs c (world s)"
proof (induction hs arbitrary: c s)
  case Nil
  then show ?case by simp
next
  case (Cons h hs)
  show ?case
  proof (cases "h_call h c (world s)")
    case (Pair out w)
    then show ?thesis
      using Cons.IH
      by (cases out) (auto simp: Let_def split: pyval.splits option.splits if_splits)
  qed
qed


lemma get_hooks_register_same:
  "hook_type \<in> VALID_HOOKS \<Longrightarrow>
   fst (get_hooks hook_type model_name (snd (register hook_type model_name f s)))
     = fst (get_hooks hook_type model_name s) @ [f]"
  by (simp add: register_def get_hooks_def dd_get_def dd_getitem_def Let_def split: option.splits)

lemma get_hooks_register_other:
  "(ht', m') \<noteq> (hook_type, model_name) \<Longrightarrow>
   fst (get_hooks ht' m' (snd (register hook_type model_name f s)))
     = fst (get_hooks ht' m' s)"
  by (auto simp add: register_def get_hooks_def dd_get_def dd_getitem_def Let_def split: option.splits)

lemma register_ok:
  "hook_type \<in> VALID_HOOKS \<Longrightarrow>
   fst (register hook_type model_name f s)
     = (case h_name f of None \<Rightarrow> Inl AttributeError | Some n \<Rightarrow> Inr ())"
  by (simp add: register_def Let_def split: prod.splits option.splits)

lemma register_world:
  "world (snd (register hook_type model_name f s)) = world s"
  by (simp add: register_def Let_def split: prod.splits option.splits)

lemma execute_hooks_reg_hooks:
  "reg_hooks (snd (execute_hooks hook_type model_name c s)) = reg_hooks s"
  by (simp add: execute_hooks_def get_hooks_def Let_def hooks_loop_reg_hooks)

text \<open>
  Claim C10. Reading the registry never changes it: \<open>get_hooks\<close> returns the state
  it was given, a key with no registration reads as the empty list and no entry
  appears for it, and \<open>execute_hooks\<close> leaves the registration map as it was (the
  hooks of the model cannot reach the registry). Only \<open>register\<close> extends the map:
  for a valid hook type it appends the callable at the end of its key's list and
  changes the list of no other key (also when the callable has no name and the
  info line that follows the append raises); for an invalid one it raises and
  changes nothing.
\<close>

theorem registry_frame:
  "snd (get_hooks hook_type model_name s) = s
   \<and> reg_hooks (snd (execute_hooks hook_type model_name c s)) = reg_hooks s
   \<and> (reg_hooks s model_name = None \<longrightarrow>
        get_hooks hook_type model_name s = ([], s) \<and>
        reg_hooks (snd (get_hooks hook_type model_name s)) model_name = None)
   \<and> (hook_type \<in> VALID_HOOKS \<longrightarrow>
        fst (register hook_type model_name f s)
          = (case h_name f of None \<Rightarrow> Inl AttributeError | Some n \<Rightarrow> Inr ()) \<and>
        fst (get_hooks hook_type model_name (snd (register hook_type model_name f s)))
          = fst (get_hooks hook_type model_name s) @ [f] \<and>
        ((ht', m') \<noteq> (hook_type, model_name) \<longrightarrow>
           fst (get_hooks ht' m' (snd (register hook_type model_name f s)))
             = fst (get_hooks ht' m' s)) \<and>
        (m' \<noteq> model_name \<longrightarrow>
           reg_hooks (snd (register hook_type model_name f s)) m' = reg_hooks s m'))
   \<and> (hook_type \<notin> VALID_HOOKS \<longrightarrow>
        register hook_type model_name f s = (Inl (ValueError hook_type), s))"
proof -
  have a: "snd (get_hooks hook_type model_name s) = s" by simp
  have b: "reg_hooks (snd (execute_hooks hook_type model_name c s)) = reg_hooks s"
    by (rule execute_hooks_reg_hooks)
  have c: "reg_hooks s model_name = None \<longrightarrow>
        get_hooks hook_type model_name s = ([], s) \<and>
        reg_hooks (snd (get_hooks hook_type model_name s)) model_name = None"
    by (simp add: get_hooks_def dd_get_def)
  have d: "m' \<noteq> model_name \<longrightarrow>
           reg_hooks (snd (register hook_type model_name f s)) m' = reg_hooks s m'"
    by (auto simp add: register_def dd_getitem_def Let_def split: option.splits)
  have e: "hook_type \<notin> VALID_HOOKS \<longrightarrow>
        register hook_type model_name f s = (Inl (ValueError hook_type), s)"
    by (simp add: register_def)
  show ?thesis
    using a b c d e register_ok [of hook_type model_name f s]
      get_hooks_register_same [of hook_type model_name f s]
      get_hooks_register_other [of ht' m' hook_type model_name f s]
    by blast
qed

theorem registry_frame_witness:
  "reg_hooks (start_state ()) ''Post'' = None \<and> BEFORE_DELETE \<in> VALID_HOOKS
   \<and> (AFTER_DELETE, ''User'') \<noteq> (BEFORE_DELETE, ''Post'') \<and> ''User'' \<noteq> ''Post''
   \<and> ''bogus'' \<notin> VALID_HOOKS
   \<and> get_hooks BEFORE_DELETE ''Post'' (start_state ()) = ([], start_state ())
   \<and> fst (get_hooks BEFORE_DELETE ''Post''
        (snd (register BEFORE_DELETE ''Post'' (const_hook ''h'' VNone) (start_state ()))))
       = [const_hook ''h'' VNone]
   \<and> fst (get_hooks AFTER_DELETE ''User''
        (snd (register BEFORE_DELETE ''Post'' (const_hook ''h'' VNone) (start_state ()))))
       = []
   \<and> register ''bogus'' ''Post'' (const_hook ''h'' VNone) (start_state ())
       = (Inl (ValueError ''bogus''), start_state ())"
proof -
  have h1: "reg_hooks (start_state ()) ''Post'' = None"
    by (simp add: start_state_def init_registry_def)
  have h2: "BEFORE_DELETE \<in> VALID_HOOKS" by (simp add: VALID_HOOKS_def)
  have h3: "(AFTER_DELETE, ''User'') \<noteq> (BEFORE_DELETE, ''Post'')" by simp
  have h4: "''bogus'' \<notin> VALID_HOOKS"
    by (simp add: VALID_HOOKS_def BEFORE_CREATE_def AFTER_CREATE_def BEFORE_UPDATE_def
        AFTER_UPDATE_def BEFORE_DELETE_def AFTER_DELETE_def)
  have h5: "fst (get_hooks BEFORE_DELETE ''Post'' (start_state ())) = []"
    by (simp add: get_hooks_def dd_get_def start_state_def init_registry_def)
  have h6: "fst (get_hooks AFTER_DELETE ''User'' (start_state ())) = []"
    by (simp add: get_hooks_def dd_get_def start_state_def init_registry_def)
  show ?thesis
    using h1 h2 h3 h4 h5 h6
      registry_frame [of BEFORE_DELETE "''Post''" "start_state ()" "[]" "const_hook ''h'' VNone"
        AFTER_DELETE "''User''"]
      registry_frame [of "''bogus''" "''Post''" "start_state ()" "[]" "const_hook ''h'' VNone"
        AFTER_DELETE "''User''"]
    by simp
qed


text \<open>
  Claim C8. For a key under which no hook is registered, \<open>execute_hooks\<close> returns
  the context it was given, as a mapping, and the state is untouched (no call,
  no log line, same world, same registry). Hence a delete handler with no
  before_delete hook, once the row is found, removes it and runs the
  after_delete hooks on the snapshot of the row.
\<close>

theorem execute_hooks_no_hooks:
  "(fst (get_hooks hook_type model_name s) = [] \<longrightarrow>
      execute_hooks hook_type model_name ctx s = (Inr (VDict ctx), s))
   \<and> (fst (get_hooks BEFORE_DELETE model_name s) = [] \<and>
        query_first rows pk_name pk = Some (i, r) \<longrightarrow>
      delete_handler model_name pk_name pk rows s =
        (case execute_hooks AFTER_DELETE model_name
                [(''instance_data'', VDict (instance_data_of r))]
                (s\<lparr>world := (world s)\<lparr>item := r\<rparr>\<rparr>) of
           (Inl e, s3) \<Rightarrow> (Inl e, remove_row i rows, s3)
         | (Inr r3, s3) \<Rightarrow> (Inr VNone, remove_row i rows, s3)))"
  by (simp add: delete_handler_def execute_hooks_def get_hooks_def Let_def)

theorem execute_hooks_no_hooks_witness:
  "fst (get_hooks BEFORE_DELETE ''Post'' (start_state \<lparr>item = [], ext = ()\<rparr>)) = []
   \<and> query_first [[(''id'', VInt 1)], [(''id'', VInt 2)]] ''id'' (VInt 2)
        = Some (1, [(''id'', VInt 2)])
   \<and> execute_hooks BEFORE_DELETE ''Post'' [(''instance'', VInstance)]
        (start_state \<lparr>item = [], ext = ()\<rparr>)
       = (Inr (VDict [(''instance'', VInstance)]), start_state \<lparr>item = [], ext = ()\<rparr>)
   \<and> delete_handler ''Post'' ''id'' (VInt 2) [[(''id'', VInt 1)], [(''id'', VInt 2)]]
        (start_state \<lparr>item = [], ext = ()\<rparr>)
       = (Inr VNone, [[(''id'', VInt 1)]],
          start_state \<lparr>item = [(''id'', VInt 2)], ext = ()\<rparr>)"
proof -
  have h1: "fst (get_hooks hook_type ''Post'' (start_state \<lparr>item = d, ext = ()\<rparr>)) = []"
    for hook_type d
    by (simp add: get_hooks_def dd_get_def start_state_def init_registry_def)
  have h2: "query_first [[(''id'', VInt 1)], [(''id'', VInt 2)]] ''id'' (VInt 2)
        = Some (1, [(''id'', VInt 2)])"
    by (simp add: dict_get_def)
  have h3: "start_state \<lparr>item = [], ext = ()\<rparr>\<lparr>world := (world (start_state \<lparr>item = [], ext = ()\<rparr>))\<lparr>item := [(''id'', VInt 2)]\<rparr>\<rparr>
     = start_state \<lparr>item = [(''id'', VInt 2)], ext = ()\<rparr>"
    by (simp add: start_state_def)
  have h4: "execute_hooks AFTER_DELETE ''Post'' c (start_state \<lparr>item = d, ext = ()\<rparr>)
     = (Inr (VDict c), start_state \<lparr>item = d, ext = ()\<rparr>)" for c d
    using h1 by (simp add: execute_hooks_def get_hooks_def)
  show ?thesis
    using h1 [of BEFORE_DELETE "[]"] h2
      execute_hooks_no_hooks [where hook_type = BEFORE_DELETE and model_name = "''Post''"
        and s = "start_state \<lparr>item = [], ext = ()\<rparr>"
        and ctx = "[(''instance'', VInstance)]"
        and rows = "[[(''id'', VInt 1)], [(''id'', VInt 2)]]" and pk_name = "''id''"
        and pk = "VInt 2" and i = 1 and r = "[(''id'', VInt 2)]"]
    by (simp add: h3 h4 remove_row_def)
qed

lemma execute_hooks_nonempty:
  "fst (get_hooks hook_type model_name s) = hs \<Longrightarrow> hs \<noteq> [] \<Longrightarrow>
   execute_hooks hook_type model_name c s =
     hooks_loop hook_type model_name hs c
       (log_event (LogDebugExecuting (length hs) hook_type model_name) s)"
  by (auto simp add: execute_hooks_def get_hooks_def)

text \<open>
  What \<open>execute_hooks\<close> does when the loop reaches a hook that raises: the loop
  ends there, whatever hooks follow. An exception that is not an \<open>Exception\<close>
  passes through; an \<open>Exception\<close> of a named hook is logged and raised again; an
  \<open>Exception\<close> of a callable without \<open>__name__\<close> is replaced by the \<open>AttributeError\<close>
  of the error line.
\<close>

lemma hook_exception_behaviour:
  assumes hooks: "fst (get_hooks hook_type model_name s) = pre @ h # post"
      and pre: "hooks_loop hook_type model_name pre ctx
                  (log_event (LogDebugExecuting (length (pre @ h # post)) hook_type model_name) s)
                = (Inr (VDict c1), s1)"
      and raises: "h_call h c1 (world s1) = (Inl e, w)"
  shows "execute_hooks hook_type model_name ctx s =
           (if is_Exception e
            then (case h_name h of
                    None \<Rightarrow>
                      (Inl AttributeError, (log_event (Invoked (h_name h) c1) s1)\<lparr>world := w\<rparr>)
                  | Some n \<Rightarrow>
                      (Inl e, log_event (LogErrorHook hook_type n model_name e)
                                ((log_event (Invoked (h_name h) c1) s1)\<lparr>world := w\<rparr>)))
            else (Inl e, (log_event (Invoked (h_name h) c1) s1)\<lparr>world := w\<rparr>))"
proof -
  have "execute_hooks hook_type model_name ctx s =
          hooks_loop hook_type model_name (pre @ h # post) ctx
            (log_event (LogDebugExecuting (length (pre @ h # post)) hook_type model_name) s)"
    using hooks by (simp add: execute_hooks_nonempty)
  also have "\<dots> = hooks_loop hook_type model_name (h # post) c1 s1"
    using pre by (rule hooks_loop_append)
  also have "\<dots> = (if is_Exception e
            then (case h_name h of
                    None \<Rightarrow>
                      (Inl AttributeError, (log_event (Invoked (h_name h) c1) s1)\<lparr>world := w\<rparr>)
                  | Some n \<Rightarrow>
                      (Inl e, log_event (LogErrorHook hook_type n model_name e)
                                ((log_event (Invoked (h_name h) c1) s1)\<lparr>world := w\<rparr>)))
            else (Inl e, (log_event (Invoked (h_name h) c1) s1)\<lparr>world := w\<rparr>))"
    using raises by (simp add: Let_def split: option.splits)
  finally show ?thesis .
qed

lemma valid_hooks_simps [simp]:
  "BEFORE_CREATE \<in> VALID_HOOKS" "AFTER_CREATE \<in> VALID_HOOKS"
  "BEFORE_UPDATE \<in> VALID_HOOKS" "AFTER_UPDATE \<in> VALID_HOOKS"
  "BEFORE_DELETE \<in> VALID_HOOKS" "AFTER_DELETE \<in> VALID_HOOKS"
  by (simp_all add: VALID_HOOKS_def)

lemma get_hooks_start [simp]:
  "fst (get_hooks hook_type model_name (start_state w)) = []"
  by (simp add: get_hooks_def dd_get_def start_state_def init_registry_def)

lemma demo_raise_hooks:
  "fst (get_hooks BEFORE_UPDATE ''User'' demo_raise)
     = [const_hook ''quiet'' VNone] @ raising_hook ''boom'' (Raised ''E'') # [const_hook ''never'' (VBool False)]"
  by (simp add: demo_raise_def get_hooks_register_same)

lemma demo_nameless_hooks:
  "fst (get_hooks BEFORE_UPDATE ''User'' demo_nameless)
     = [const_hook ''quiet'' VNone] @ nameless_raising_hook (Raised ''E'')
         # [const_hook ''never'' (VBool False)]"
  by (simp add: demo_nameless_def get_hooks_register_same)

text \<open>A named hook that raises: the caller gets the hook's exception.\<close>

lemma named_hook_exception_propagates:
  "execute_hooks BEFORE_UPDATE ''User'' [(''data'', VDict [])] demo_raise
     = (Inl (Raised ''E''),
        demo_raise\<lparr>trace := trace demo_raise @
          [LogDebugExecuting 3 BEFORE_UPDATE ''User'',
           Invoked (Some ''quiet'') [(''data'', VDict [])],
           Invoked (Some ''boom'') [(''data'', VDict [])],
           LogErrorHook BEFORE_UPDATE ''boom'' ''User'' (Raised ''E'')]\<rparr>)"
proof -
  let ?s = "log_event (LogDebugExecuting 3 BEFORE_UPDATE ''User'') demo_raise"
  let ?c = "[(''data'', VDict [])]"
  have pre: "hooks_loop BEFORE_UPDATE ''User'' [const_hook ''quiet'' VNone] ?c
               (log_event (LogDebugExecuting
                  (length ([const_hook ''quiet'' VNone] @ raising_hook ''boom'' (Raised ''E'')
                     # [const_hook ''never'' (VBool False)])) BEFORE_UPDATE ''User'') demo_raise)
             = (Inr (VDict ?c), log_event (Invoked (Some ''quiet'') ?c) ?s)"
    by (simp add: const_hook_def log_event_def)
  have raises: "h_call (raising_hook ''boom'' (Raised ''E'')) ?c
                  (world (log_event (Invoked (Some ''quiet'') ?c) ?s)) = (Inl (Raised ''E''), ())"
    by (simp add: raising_hook_def)
  show ?thesis
    using hook_exception_behaviour [OF demo_raise_hooks pre raises]
    by (simp add: log_event_def raising_hook_def)
qed

text \<open>
  Claim C7 fails on the code for a callable without \<open>__name__\<close>. Registered
  between two named hooks (its registration raises \<open>AttributeError\<close>, after the
  append), it raises an \<open>Exception\<close>; the caller of \<open>execute_hooks\<close> gets
  \<open>AttributeError\<close>, not that exception, and no error line is logged. The hook
  after it is not invoked.
\<close>

theorem nameless_hook_exception_converted:
  "fst (register BEFORE_UPDATE ''User'' (nameless_raising_hook (Raised ''E'') :: unit hook)
          (snd (register BEFORE_UPDATE ''User'' (const_hook ''quiet'' VNone) (start_state ()))))
     = Inl AttributeError
   \<and> fst (get_hooks BEFORE_UPDATE ''User'' demo_nameless)
     = [const_hook ''quiet'' VNone, nameless_raising_hook (Raised ''E''),
        const_hook ''never'' (VBool False)]
   \<and> h_call (nameless_raising_hook (Raised ''E'')) [(''data'', VDict [])] ()
     = (Inl (Raised ''E''), ())
   \<and> execute_hooks BEFORE_UPDATE ''User'' [(''data'', VDict [])] demo_nameless
     = (Inl AttributeError,
        demo_nameless\<lparr>trace := trace demo_nameless @
          [LogDebugExecuting 3 BEFORE_UPDATE ''User'',
           Invoked (Some ''quiet'') [(''data'', VDict [])],
           Invoked None [(''data'', VDict [])]]\<rparr>)"
proof -
  let ?s = "log_event (LogDebugExecuting 3 BEFORE_UPDATE ''User'') demo_nameless"
  let ?c = "[(''data'', VDict [])]"
  have reg: "fst (register BEFORE_UPDATE ''User'' (nameless_raising_hook (Raised ''E'') :: unit hook)
          (snd (register BEFORE_UPDATE ''User'' (const_hook ''quiet'' VNone) (start_state ()))))
     = Inl AttributeError"
    by (simp add: register_ok nameless_raising_hook_def)
  have pre: "hooks_loop BEFORE_UPDATE ''User'' [const_hook ''quiet'' VNone] ?c
               (log_event (LogDebugExecuting
                  (length ([const_hook ''quiet'' VNone] @ nameless_raising_hook (Raised ''E'')
                     # [const_hook ''never'' (VBool False)])) BEFORE_UPDATE ''User'') demo_nameless)
             = (Inr (VDict ?c), log_event (Invoked (Some ''quiet'') ?c) ?s)"
    by (simp add: const_hook_def log_event_def)
  have raises: "h_call (nameless_raising_hook (Raised ''E'')) ?c
                  (world (log_event (Invoked (Some ''quiet'') ?c) ?s)) = (Inl (Raised ''E''), ())"
    by (simp add: nameless_raising_hook_def)
  have run: "execute_hooks BEFORE_UPDATE ''User'' ?c demo_nameless
     = (Inl AttributeError,
        demo_nameless\<lparr>trace := trace demo_nameless @
          [LogDebugExecuting 3 BEFORE_UPDATE ''User'',
           Invoked (Some ''quiet'') ?c, Invoked None ?c]\<rparr>)"
    using hook_exception_behaviour [OF demo_nameless_hooks pre raises]
    by (simp add: log_event_def nameless_raising_hook_def)
  show ?thesis
    using reg demo_nameless_hooks run
    by (simp add: nameless_raising_hook_def)
qed

lemma hooks_loop_trace:
  "\<exists>t. trace (snd (hooks_loop hook_type model_name hs c s)) = trace s @ t"
proof (induction hs arbitrary: c s)
  case Nil
  then show ?case by simp
next
  case (Cons h hs)
  show ?case
  proof (cases "h_call h c (world s)")
    case (Pair out w)
    obtain t1 where t1: "trace (snd (hooks_loop hook_type model_name hs c
        ((log_event (Invoked (h_name h) c) s)\<lparr>world := w\<rparr>)))
        = trace ((log_event (Invoked (h_name h) c) s)\<lparr>world := w\<rparr>) @ t1"
      using Cons.IH by blast
    obtain t2 where t2: "\<And>d. \<exists>t. trace (snd (hooks_loop hook_type model_name hs (dict_update c d)
        ((log_event (Invoked (h_name h) c) s)\<lparr>world := w\<rparr>)))
        = trace ((log_event (Invoked (h_name h) c) s)\<lparr>world := w\<rparr>) @ t"
      using Cons.IH by blast
    show ?thesis
    proof (cases out)
      case (Inl e)
      then show ?thesis using Pair by (cases "h_name h") (simp_all add: Let_def)
    next
      case (Inr v)
      then show ?thesis using Pair t1 t2 [of "case v of VDict d \<Rightarrow> d | _ \<Rightarrow> []"]
        by (cases v) (auto simp: Let_def)
    qed
  qed
qed

lemma hooks_loop_trace_first:
  "\<exists>t. trace (snd (hooks_loop hook_type model_name (h # hs) c s))
         = trace s @ Invoked (h_name h) c # t"
proof (cases "h_call h c (world s)")
  case (Pair out w)
  let ?s1 = "(log_event (Invoked (h_name h) c) s)\<lparr>world := w\<rparr>"
  have tl: "\<exists>t. trace (snd (hooks_loop hook_type model_name hs c' ?s1)) = trace ?s1 @ t" for c'
    by (rule hooks_loop_trace)
  show ?thesis
  proof (cases out)
    case (Inl e)
    then show ?thesis using Pair by (cases "h_name h") (simp_all add: Let_def)
  next
    case (Inr v)
    then show ?thesis
      using Pair tl [of c] tl [of "dict_update c (case v of VDict d \<Rightarrow> d | _ \<Rightarrow> [])"]
      by (cases v) (auto simp: Let_def)
  qed
qed

text \<open>
  Claim C4. Register A, then B, under one key (after any hooks already there).
  When the loop reaches A and A returns \<open>None\<close> or a mapping, the call of B comes
  right after the call of A in the trace, on the world A left, and B receives
  the context A received, updated with A's mapping when A returned one and
  unchanged when A returned \<open>None\<close>.
\<close>

theorem hooks_run_in_registration_order:
  assumes valid: "hook_type \<in> VALID_HOOKS"
      and s2: "s2 = snd (register hook_type model_name B (snd (register hook_type model_name A s)))"
      and prior: "hooks_loop hook_type model_name (fst (get_hooks hook_type model_name s)) ctx
                    (log_event (LogDebugExecuting
                       (length (fst (get_hooks hook_type model_name s) @ [A, B]))
                       hook_type model_name) s2)
                  = (Inr (VDict c1), s1)"
      and ret: "h_call A c1 (world s1) = (Inr rA, wA)"
      and proceed: "rA = VNone \<or> is_dict rA"
      and cB: "cB = (case rA of VDict d \<Rightarrow> dict_update c1 d | _ \<Rightarrow> c1)"
  shows "fst (get_hooks hook_type model_name s2) = fst (get_hooks hook_type model_name s) @ [A, B]
     \<and> execute_hooks hook_type model_name ctx s2
         = hooks_loop hook_type model_name [B] cB
             ((log_event (Invoked (h_name A) c1) s1)\<lparr>world := wA\<rparr>)
     \<and> (\<exists>t. trace (snd (execute_hooks hook_type model_name ctx s2))
              = trace s1 @ [Invoked (h_name A) c1, Invoked (h_name B) cB] @ t)"
proof -
  let ?hs = "fst (get_hooks hook_type model_name s)"
  let ?sA = "(log_event (Invoked (h_name A) c1) s1)\<lparr>world := wA\<rparr>"
  have hooks: "fst (get_hooks hook_type model_name s2) = ?hs @ [A, B]"
    using valid s2 by (simp add: get_hooks_register_same)
  have "execute_hooks hook_type model_name ctx s2 =
          hooks_loop hook_type model_name (?hs @ [A, B]) ctx
            (log_event (LogDebugExecuting (length (?hs @ [A, B])) hook_type model_name) s2)"
    using hooks by (simp add: execute_hooks_nonempty)
  also have "\<dots> = hooks_loop hook_type model_name [A, B] c1 s1"
    using prior by (rule hooks_loop_append)
  also have "\<dots> = hooks_loop hook_type model_name [B] cB ?sA"
    using ret proceed cB by (cases rA) (simp_all add: Let_def)
  finally have run: "execute_hooks hook_type model_name ctx s2
      = hooks_loop hook_type model_name [B] cB ?sA" .
  obtain t where "trace (snd (hooks_loop hook_type model_name [B] cB ?sA))
      = trace ?sA @ Invoked (h_name B) cB # t"
    using hooks_loop_trace_first [of hook_type model_name B "[]" cB ?sA] by blast
  then have "trace (snd (execute_hooks hook_type model_name ctx s2))
      = trace s1 @ [Invoked (h_name A) c1, Invoked (h_name B) cB] @ t"
    using run by simp
  then show ?thesis using hooks run by blast
qed


theorem hooks_run_in_registration_order_witness:
  "AFTER_CREATE \<in> VALID_HOOKS
   \<and> fst (get_hooks AFTER_CREATE ''Entity'' demo_order)
       = [const_hook ''A'' (VDict [(''extra'', VInt 1)]), const_hook ''B'' VNone]
   \<and> execute_hooks AFTER_CREATE ''Entity'' [(''instance'', VInstance)] demo_order
       = (Inr (VDict [(''instance'', VInstance), (''extra'', VInt 1)]),
          demo_order\<lparr>trace := trace demo_order @
            [LogDebugExecuting 2 AFTER_CREATE ''Entity'',
             Invoked (Some ''A'') [(''instance'', VInstance)],
             Invoked (Some ''B'') [(''instance'', VInstance), (''extra'', VInt 1)]]\<rparr>)"
proof -
  let ?A = "const_hook ''A'' (VDict [(''extra'', VInt 1)]) :: unit hook"
  let ?B = "const_hook ''B'' VNone :: unit hook"
  let ?c = "[(''instance'', VInstance)]"
  let ?s1 = "log_event (LogDebugExecuting 2 AFTER_CREATE ''Entity'') demo_order"
  have valid: "AFTER_CREATE \<in> VALID_HOOKS" by simp
  have prior: "hooks_loop AFTER_CREATE ''Entity''
                 (fst (get_hooks AFTER_CREATE ''Entity'' (start_state ()))) ?c
                 (log_event (LogDebugExecuting
                    (length (fst (get_hooks AFTER_CREATE ''Entity'' (start_state ())) @ [?A, ?B]))
                    AFTER_CREATE ''Entity'') demo_order)
               = (Inr (VDict ?c), ?s1)"
    by simp
  have ret: "h_call ?A ?c (world ?s1) = (Inr (VDict [(''extra'', VInt 1)]), ())"
    by (simp add: const_hook_def)
  have proceed: "VDict [(''extra'', VInt 1)] = VNone \<or> is_dict (VDict [(''extra'', VInt 1)])"
    by simp
  have cB: "[(''instance'', VInstance), (''extra'', VInt 1)]
      = (case VDict [(''extra'', VInt 1)] of VDict d \<Rightarrow> dict_update ?c d | _ \<Rightarrow> ?c)"
    by simp
  show ?thesis
    using valid
      hooks_run_in_registration_order [OF valid demo_order_def prior ret proceed cB]
    by (simp add: const_hook_def log_event_def)
qed

lemma query_first_Some:
  "query_first rows pk_name pk = Some (i, r) \<Longrightarrow>
   i < length rows \<and> rows ! i = r \<and> dict_get r pk_name = Some pk"
proof (induction rows arbitrary: i)
  case Nil
  then show ?case by simp
next
  case (Cons x xs)
  show ?case
  proof (cases "dict_get x pk_name = Some pk")
    case True
    then show ?thesis using Cons.prems by simp
  next
    case False
    then obtain j where j: "query_first xs pk_name pk = Some (j, r)" and i: "i = Suc j"
      using Cons.prems by auto
    then show ?thesis using Cons.IH [OF j] by simp
  qed
qed

text \<open>
  Claim C1, as amended. Let the handler find the row. If the loop reaches a
  before_delete hook that returns a value other than \<open>None\<close> and other than a
  mapping, then: when that value is \<open>False\<close> itself the row stays in the table,
  holding the attributes as the hooks left them (the mutations are committed),
  and no after_delete hook runs; for any other such value the row is removed
  and the after_delete hooks run. If every before_delete hook returns \<open>None\<close> or
  a mapping, the row is removed and the after_delete hooks run.
\<close>

theorem delete_handler_abort_semantics:
  assumes found: "query_first rows pk_name pk = Some (i, r)"
      and loaded: "s0 = s\<lparr>world := (world s)\<lparr>item := r\<rparr>\<rparr>"
  shows
    "(fst (get_hooks BEFORE_DELETE model_name s) = pre @ h # post \<and>
      hooks_loop BEFORE_DELETE model_name pre [(''instance'', VInstance)]
        (log_event (LogDebugExecuting (length (pre @ h # post)) BEFORE_DELETE model_name) s0)
        = (Inr (VDict c1), s1) \<and>
      h_call h c1 (world s1) = (Inr v, w) \<and> v \<noteq> VNone \<and> \<not> is_dict v \<and>
      s2 = (log_event (Invoked (h_name h) c1) s1)\<lparr>world := w\<rparr>
      \<longrightarrow>
        (if v = VBool False
         then delete_handler model_name pk_name pk rows s = (Inr VNone, rows[i := item w], s2)
              \<and> length (rows[i := item w]) = length rows \<and> rows[i := item w] ! i = item w
         else fst (snd (delete_handler model_name pk_name pk rows s)) = remove_row i rows
              \<and> snd (snd (delete_handler model_name pk_name pk rows s))
                  = snd (execute_hooks AFTER_DELETE model_name
                           [(''instance_data'', VDict (instance_data_of (item w)))] s2)))
     \<and> (all_proceed (fst (get_hooks BEFORE_DELETE model_name s)) [(''instance'', VInstance)]
          (world s0)
        \<longrightarrow>
        (\<exists>c2 s3. execute_hooks BEFORE_DELETE model_name [(''instance'', VInstance)] s0
                   = (Inr (VDict c2), s3)
           \<and> fst (snd (delete_handler model_name pk_name pk rows s)) = remove_row i rows
           \<and> snd (snd (delete_handler model_name pk_name pk rows s))
               = snd (execute_hooks AFTER_DELETE model_name
                        [(''instance_data'', VDict (instance_data_of (item (world s3))))] s3)))"
proof (intro conjI impI)
  let ?c0 = "[(''instance'', VInstance)]"
  assume a: "fst (get_hooks BEFORE_DELETE model_name s) = pre @ h # post \<and>
      hooks_loop BEFORE_DELETE model_name pre ?c0
        (log_event (LogDebugExecuting (length (pre @ h # post)) BEFORE_DELETE model_name) s0)
        = (Inr (VDict c1), s1) \<and>
      h_call h c1 (world s1) = (Inr v, w) \<and> v \<noteq> VNone \<and> \<not> is_dict v \<and>
      s2 = (log_event (Invoked (h_name h) c1) s1)\<lparr>world := w\<rparr>"
  have hooks0: "fst (get_hooks BEFORE_DELETE model_name s0) = pre @ h # post"
    using a loaded by (simp add: get_hooks_def)
  have "execute_hooks BEFORE_DELETE model_name ?c0 s0
      = hooks_loop BEFORE_DELETE model_name (pre @ h # post) ?c0
          (log_event (LogDebugExecuting (length (pre @ h # post)) BEFORE_DELETE model_name) s0)"
    using hooks0 by (simp add: execute_hooks_nonempty)
  also have "\<dots> = hooks_loop BEFORE_DELETE model_name (h # post) c1 s1"
    using a hooks_loop_append by blast
  also have "\<dots> = (Inr v, s2)"
    using a by (cases v) (simp_all add: Let_def)
  finally have run: "execute_hooks BEFORE_DELETE model_name ?c0 s0 = (Inr v, s2)" .
  have w: "world s2 = w" using a by simp
  have i: "i < length rows" using query_first_Some [OF found] by simp
  show "if v = VBool False
         then delete_handler model_name pk_name pk rows s = (Inr VNone, rows[i := item w], s2)
              \<and> length (rows[i := item w]) = length rows \<and> rows[i := item w] ! i = item w
         else fst (snd (delete_handler model_name pk_name pk rows s)) = remove_row i rows
              \<and> snd (snd (delete_handler model_name pk_name pk rows s))
                  = snd (execute_hooks AFTER_DELETE model_name
                           [(''instance_data'', VDict (instance_data_of (item w)))] s2)"
    using found loaded run w i
    by (auto simp add: delete_handler_def Let_def split: prod.splits sum.splits)
next
  let ?c0 = "[(''instance'', VInstance)]"
  assume a: "all_proceed (fst (get_hooks BEFORE_DELETE model_name s)) ?c0 (world s0)"
  have hooks0: "fst (get_hooks BEFORE_DELETE model_name s0)
      = fst (get_hooks BEFORE_DELETE model_name s)"
    using loaded by (simp add: get_hooks_def)
  obtain c2 s3 where run: "execute_hooks BEFORE_DELETE model_name ?c0 s0 = (Inr (VDict c2), s3)"
  proof (cases "fst (get_hooks BEFORE_DELETE model_name s0) = []")
    case True
    then show ?thesis using that by (simp add: execute_hooks_def get_hooks_def)
  next
    case False
    let ?sd = "log_event (LogDebugExecuting (length (fst (get_hooks BEFORE_DELETE model_name s0)))
                 BEFORE_DELETE model_name) s0"
    have "all_proceed (fst (get_hooks BEFORE_DELETE model_name s0)) ?c0 (world ?sd)"
      using a hooks0 by simp
    then obtain c2 s3 where
      "hooks_loop BEFORE_DELETE model_name (fst (get_hooks BEFORE_DELETE model_name s0)) ?c0 ?sd
         = (Inr (VDict c2), s3)"
      using hooks_loop_completes_iff by blast
    then show ?thesis using that False by (simp add: execute_hooks_nonempty)
  qed
  show "\<exists>c2 s3. execute_hooks BEFORE_DELETE model_name ?c0 s0 = (Inr (VDict c2), s3)
           \<and> fst (snd (delete_handler model_name pk_name pk rows s)) = remove_row i rows
           \<and> snd (snd (delete_handler model_name pk_name pk rows s))
               = snd (execute_hooks AFTER_DELETE model_name
                        [(''instance_data'', VDict (instance_data_of (item (world s3))))] s3)"
    using found loaded run
    by (auto simp add: delete_handler_def Let_def split: prod.splits sum.splits)
qed

lemma demo_before_delete_hooks:
  "fst (get_hooks BEFORE_DELETE ''Post'' (demo_before_delete h)) = [h]"
  by (simp add: demo_before_delete_def get_hooks_register_same)

lemma demo_before_delete_after:
  "fst (get_hooks AFTER_DELETE ''Post'' (demo_before_delete h)) = []"
  by (simp add: demo_before_delete_def get_hooks_register_other BEFORE_DELETE_def AFTER_DELETE_def)

lemmas demo_eval = delete_handler_def execute_hooks_def get_hooks_def register_def dd_get_def
  dd_getitem_def demo_before_delete_def start_state_def init_registry_def const_hook_def
  dict_get_def remove_row_def log_event_def Let_def VALID_HOOKS_def BEFORE_DELETE_def
  AFTER_DELETE_def instance_data_of_def

text \<open>
  Claim C1 as stated fails: a before_delete hook that returns \<open>0\<close>, the empty
  string or the empty list (falsy, not a mapping) does not keep the row. The
  handler tests \<open>should_delete is False\<close>.
\<close>

theorem delete_handler_falsy_counterexample:
  "\<not> truthy (VInt 0) \<and> \<not> is_dict (VInt 0)
   \<and> fst (get_hooks BEFORE_DELETE ''Post'' (demo_before_delete (const_hook ''zero'' (VInt 0))))
       = [const_hook ''zero'' (VInt 0)]
   \<and> fst (snd (delete_handler ''Post'' ''id'' (VInt 1) [[(''id'', VInt 1)]]
        (demo_before_delete (const_hook ''zero'' (VInt 0))))) = []
   \<and> \<not> truthy (VStr []) \<and> \<not> is_dict (VStr [])
   \<and> fst (snd (delete_handler ''Post'' ''id'' (VInt 1) [[(''id'', VInt 1)]]
        (demo_before_delete (const_hook ''empty'' (VStr []))))) = []
   \<and> \<not> truthy (VList []) \<and> \<not> is_dict (VList [])
   \<and> fst (snd (delete_handler ''Post'' ''id'' (VInt 1) [[(''id'', VInt 1)]]
        (demo_before_delete (const_hook ''nothing'' (VList []))))) = []"
  by (simp add: demo_eval)

theorem delete_handler_abort_semantics_witness:
  "query_first [[(''id'', VInt 1), (''deleted_at'', VNone)]] ''id'' (VInt 1)
     = Some (0, [(''id'', VInt 1), (''deleted_at'', VNone)])
   \<and> fst (get_hooks BEFORE_DELETE ''Post''
        (demo_before_delete
           (marking_hook ''soft_delete'' ''deleted_at'' (VStr ''now'') (VBool False))))
       = [] @ marking_hook ''soft_delete'' ''deleted_at'' (VStr ''now'') (VBool False) # []
   \<and> fst (delete_handler ''Post'' ''id'' (VInt 1) [[(''id'', VInt 1), (''deleted_at'', VNone)]]
        (demo_before_delete
           (marking_hook ''soft_delete'' ''deleted_at'' (VStr ''now'') (VBool False))))
       = Inr VNone
   \<and> fst (snd (delete_handler ''Post'' ''id'' (VInt 1)
        [[(''id'', VInt 1), (''deleted_at'', VNone)]]
        (demo_before_delete
           (marking_hook ''soft_delete'' ''deleted_at'' (VStr ''now'') (VBool False)))))
       = [[(''id'', VInt 1), (''deleted_at'', VStr ''now'')]]
   \<and> all_proceed (fst (get_hooks BEFORE_DELETE ''Post''
        (demo_before_delete (const_hook ''quiet'' VNone)))) [(''instance'', VInstance)]
        \<lparr>item = [(''id'', VInt 1), (''deleted_at'', VNone)], ext = ()\<rparr>
   \<and> fst (snd (delete_handler ''Post'' ''id'' (VInt 1)
        [[(''id'', VInt 1), (''deleted_at'', VNone)]]
        (demo_before_delete (const_hook ''quiet'' VNone))))
       = []"
proof -
  let ?r = "[(''id'', VInt 1), (''deleted_at'', VNone)]"
  let ?h = "marking_hook ''soft_delete'' ''deleted_at'' (VStr ''now'') (VBool False)
              :: (unit heap) hook"
  let ?c0 = "[(''instance'', VInstance)]"
  let ?s0 = "(demo_before_delete ?h)\<lparr>world := (world (demo_before_delete ?h))\<lparr>item := ?r\<rparr>\<rparr>"
  let ?s1 = "log_event (LogDebugExecuting (length ([] @ ?h # [])) BEFORE_DELETE ''Post'') ?s0"
  let ?w = "\<lparr>item = [(''id'', VInt 1), (''deleted_at'', VStr ''now'')], ext = ()\<rparr>"
  let ?q = "demo_before_delete (const_hook ''quiet'' VNone)"
  have found: "query_first [?r] ''id'' (VInt 1) = Some (0, ?r)"
    by (simp add: dict_get_def)
  have hooks: "fst (get_hooks BEFORE_DELETE ''Post'' (demo_before_delete ?h)) = [] @ ?h # []"
    by (simp add: demo_before_delete_hooks)
  have pre: "hooks_loop BEFORE_DELETE ''Post'' [] ?c0 ?s1 = (Inr (VDict ?c0), ?s1)"
    by simp
  have ret: "h_call ?h ?c0 (world ?s1) = (Inr (VBool False), ?w)"
    by (simp add: marking_hook_def demo_before_delete_def start_state_def register_def
        Let_def log_event_def split: prod.splits)
  have quiet: "all_proceed (fst (get_hooks BEFORE_DELETE ''Post'' ?q)) ?c0
      (world (?q\<lparr>world := (world ?q)\<lparr>item := ?r\<rparr>\<rparr>))"
    by (simp add: demo_before_delete_hooks const_hook_def)
  have wq: "world ?q = \<lparr>item = [], ext = ()\<rparr>"
    by (simp add: demo_before_delete_def register_world start_state_def)
  have abort: "delete_handler ''Post'' ''id'' (VInt 1) [?r] (demo_before_delete ?h)
      = (Inr VNone, [?r][0 := item ?w],
         (log_event (Invoked (h_name ?h) ?c0) ?s1)\<lparr>world := ?w\<rparr>)"
    using delete_handler_abort_semantics [OF found refl, where model_name = "''Post''"
        and s = "demo_before_delete ?h" and pre = "[]" and h = ?h and post = "[]"
        and ?c1.0 = ?c0 and ?s1.0 = ?s1 and v = "VBool False" and w = ?w
        and ?s2.0 = "(log_event (Invoked (h_name ?h) ?c0) ?s1)\<lparr>world := ?w\<rparr>",
        THEN conjunct1]
      hooks pre ret
    by simp
  have removed: "fst (snd (delete_handler ''Post'' ''id'' (VInt 1) [?r] ?q)) = remove_row 0 [?r]"
    using delete_handler_abort_semantics [OF found refl, where model_name = "''Post''"
        and s = ?q, THEN conjunct2] quiet
    by blast
  show ?thesis
    using found hooks quiet abort removed
    by (simp add: remove_row_def wq)
qed
section \<open>Properties of the validator and of the generators\<close>

lemma validate_fields_loop_ok:
  "validate_fields_loop fs = Inr () \<longleftrightarrow>
   (\<forall>f \<in> set fs. f_type f \<in> VALID_TYPES \<and> \<not> (f_required f \<and> f_nullable f \<and> \<not> f_primary f))"
  by (induction fs)
     (auto simp: validate_field_type_def validate_required_nullable_def split: sum.splits)

lemma validate_primary_key_ok:
  "validate_primary_key s fs = Inr () \<longleftrightarrow> length (filter f_primary fs) = 1"
  by (cases "filter f_primary fs") (auto simp: validate_primary_key_def Let_def)

lemma py_in_Inr_True:
  "py_in v S = Inr True \<longleftrightarrow> (\<exists>t. v = VStr t \<and> t \<in> S)"
  by (cases v) (auto simp: py_in_def)

lemma py_in_cases:
  "py_in v S = Inl TypeError \<or> py_in v S = Inr True \<or> py_in v S = Inr False"
  by (cases v) (auto simp: py_in_def)

lemma validate_relations_loop_ok:
  "validate_relations_loop n rels = Inr () \<longleftrightarrow>
   (\<forall>rel \<in> set rels. relation_type_ok rel \<and> truthy (dict_get_or_none rel ''target''))"
proof (induction rels)
  case Nil
  then show ?case by simp
next
  case (Cons rel rels)
  have ty: "relation_type_ok rel \<longleftrightarrow>
      py_in (dict_get_or_none rel ''type'') VALID_RELATION_TYPES = Inr True"
    by (auto simp: relation_type_ok_def py_in_Inr_True dict_get_or_none_def
        split: option.splits pyval.splits)
  show ?case
    using Cons.IH py_in_cases [of "dict_get_or_none rel ''type''" VALID_RELATION_TYPES]
    by (auto simp: ty Let_def split: sum.splits)
qed

lemma check_targets_ok:
  "check_targets known n rels = Inr () \<longleftrightarrow>
   (\<forall>rel \<in> set rels. truthy (dict_get_or_none rel ''target'') \<longrightarrow>
      py_in (dict_get_or_none rel ''target'') known = Inr True)"
proof (induction rels)
  case Nil
  then show ?case by simp
next
  case (Cons rel rels)
  show ?case
    using Cons.IH py_in_cases [of "dict_get_or_none rel ''target''" known]
    by (auto simp: Let_def split: sum.splits)
qed

lemma validate_each_ok:
  "validate_each fm ss = Inr () \<longleftrightarrow>
   (\<forall>s \<in> set ss. case fm (s_name s) of None \<Rightarrow> False
                   | Some fs \<Rightarrow> validate_schema s fs = Inr ())"
  by (induction ss) (auto split: option.splits sum.splits)

lemma check_all_targets_ok:
  "check_all_targets known ss = Inr () \<longleftrightarrow>
   (\<forall>s \<in> set ss. check_targets known (s_name s) (s_relations s) = Inr ())"
  by (induction ss) (auto split: sum.splits)

lemma validate_schema_ok:
  "validate_schema s fs = Inr () \<longleftrightarrow>
   validate_fields_loop fs = Inr () \<and> validate_primary_key s fs = Inr ()
   \<and> validate_relations s = Inr ()"
  by (auto simp: validate_schema_def split: sum.splits)

lemma target_conditions:
  "truthy (dict_get_or_none rel ''target'')
     \<and> py_in (dict_get_or_none rel ''target'') known = Inr True
   \<longleftrightarrow> target_exists known rel \<and> target_nonempty rel"
  by (auto simp: target_exists_def target_nonempty_def py_in_Inr_True dict_get_or_none_def
      split: option.splits pyval.splits)

text \<open>
  Claim C2, as amended. \<open>validate_all\<close> succeeds if and only if every schema has
  a field list with exactly one primary field, every field type in the
  eleven-type set and no field required and nullable unless primary, every
  relation target names a schema of the set, and moreover every relation has one
  of the three relation types and a non-empty target.
\<close>

theorem validate_all_accepts_iff:
  "validate_all schemas field_map = Inr () \<longleftrightarrow>
   claimed_valid schemas field_map
   \<and> (\<forall>s \<in> set schemas. \<forall>rel \<in> set (s_relations s).
         relation_type_ok rel \<and> target_nonempty rel)"
proof -
  let ?known = "set (map s_name schemas)"
  have "validate_all schemas field_map = Inr () \<longleftrightarrow>
      validate_each field_map schemas = Inr () \<and> check_all_targets ?known schemas = Inr ()"
    by (auto simp: validate_all_def Let_def split: sum.splits)
  also have "\<dots> \<longleftrightarrow>
      (\<forall>s \<in> set schemas.
         (case field_map (s_name s) of None \<Rightarrow> False
          | Some fs \<Rightarrow>
              (\<forall>f \<in> set fs. f_type f \<in> VALID_TYPES
                 \<and> \<not> (f_required f \<and> f_nullable f \<and> \<not> f_primary f))
              \<and> length (filter f_primary fs) = 1)
         \<and> (\<forall>rel \<in> set (s_relations s).
               relation_type_ok rel
               \<and> truthy (dict_get_or_none rel ''target'')
               \<and> py_in (dict_get_or_none rel ''target'') ?known = Inr True))"
    unfolding validate_each_ok check_all_targets_ok validate_schema_ok validate_fields_loop_ok
      validate_primary_key_ok validate_relations_def validate_relations_loop_ok check_targets_ok
    by (auto split: option.splits)
  also have "\<dots> \<longleftrightarrow>
      claimed_valid schemas field_map
      \<and> (\<forall>s \<in> set schemas. \<forall>rel \<in> set (s_relations s).
            relation_type_ok rel \<and> target_nonempty rel)"
    unfolding claimed_valid_def using target_conditions [of _ ?known]
    by (auto split: option.splits)
  finally show ?thesis .
qed

lemma starts_with_append: "starts_with p (p @ s)"
  by (induction p) simp_all

lemma contains_self_append: "contains sub (sub @ s)"
  by (cases "sub @ s") (use starts_with_append [of sub s] in auto)

lemma contains_Cons: "contains sub s \<Longrightarrow> contains sub (c # s)"
  by (cases sub) auto

lemma contains_append_left: "contains sub s \<Longrightarrow> contains sub (xs @ s)"
  by (induction xs) (auto intro: contains_Cons)

lemma contains_None_optional: "contains ''None'' (p @ '' | None'')"
proof -
  have "contains ''None'' (''None'' @ [])" by (rule contains_self_append)
  then have "contains ''None'' ((p @ '' | '') @ ''None'')"
    using contains_append_left [of "''None''" "''None''" "p @ '' | ''"] by simp
  then show ?thesis by simp
qed

lemma python_base_no_None: "\<not> contains ''None'' (python_base t)"
proof (cases "map_of type_map t")
  case None
  then show ?thesis by (simp add: python_base_def)
next
  case (Some p)
  then have "p \<in> snd ` set type_map" by (metis map_of_SomeD image_eqI snd_conv)
  moreover have "\<forall>q \<in> snd ` set type_map. \<not> contains ''None'' q"
    by (simp add: type_map_def)
  ultimately have "\<not> contains ''None'' p" by blast
  then show ?thesis using Some by (simp add: python_base_def)
qed

lemma get_python_type_base:
  "get_python_type f =
     python_base (f_type f) @ (if f_nullable f \<and> \<not> f_primary f then '' | None'' else [])"
  by (simp add: get_python_type_def python_base_def Let_def)

lemma pydantic_field_lines_Create:
  "pydantic_field_lines ''Create'' fs = map create_line (filter (\<lambda>f. \<not> f_primary f) fs)"
  by (induction fs) (auto simp: create_line_def Let_def)

lemma pydantic_field_lines_Update:
  "pydantic_field_lines ''Update'' fs = map update_line fs"
  by (induction fs)
     (auto simp: update_line_def Let_def get_python_type_base python_base_no_None
        contains_None_optional)

lemma length_filter_not_primary:
  "length (filter (\<lambda>f. \<not> f_primary f) fs) = length fs - length (filter f_primary fs)"
  using sum_length_filter_compl [of f_primary fs] by simp

lemma py_join_lines_text: "ls \<noteq> [] \<Longrightarrow> py_join nl ls @ nl = lines_text ls"
  by (induction nl ls rule: py_join.induct) (simp_all add: lines_text_def)

lemma lines_text_append [simp]: "lines_text (xs @ ys) = lines_text xs @ lines_text ys"
  by (simp add: lines_text_def)

lemma generate_model_text:
  "generate_model order self schema fields' relations =
     model_preamble schema
     @ py_join nl
         (map (generate_field_code order) fields'
          @ (if s_timestamps schema then [created_at_line, updated_at_line] else [])
          @ (if s_soft_delete schema then [deleted_at_line] else [])
          @ map (\<lambda>rel. generate_relation_code rel (s_name schema)) relations)
     @ nl"
  by (simp add: generate_model_def model_preamble_def Let_def created_at_line_def
      updated_at_line_def deleted_at_line_def)

text \<open>
  Claim C3, as amended. When timestamps or soft delete are enabled, the text of
  the model is its preamble, the declared field lines, then created_at and
  updated_at (when enabled), then deleted_at (when enabled), and the relation
  lines last: the cross-cutting columns come in that fixed order after every
  declared field line and before every relation line.
\<close>

theorem generate_model_column_order:
  assumes flags: "s_timestamps schema \<or> s_soft_delete schema"
  shows "generate_model order self schema fields' relations =
           model_preamble schema
           @ lines_text (map (generate_field_code order) fields')
           @ (if s_timestamps schema then created_at_line @ nl @ updated_at_line @ nl else [])
           @ (if s_soft_delete schema then deleted_at_line @ nl else [])
           @ lines_text (map (\<lambda>rel. generate_relation_code rel (s_name schema)) relations)"
proof -
  let ?ts = "if s_timestamps schema then [created_at_line, updated_at_line] else []"
  let ?sd = "if s_soft_delete schema then [deleted_at_line] else []"
  let ?body = "map (generate_field_code order) fields' @ ?ts @ ?sd
                 @ map (\<lambda>rel. generate_relation_code rel (s_name schema)) relations"
  have ne: "?body \<noteq> []" using flags by auto
  have "generate_model order self schema fields' relations
          = model_preamble schema @ (py_join nl ?body @ nl)"
    by (simp add: generate_model_text)
  also have "\<dots> = model_preamble schema @ lines_text ?body"
    using py_join_lines_text [OF ne] by simp
  also have "\<dots> = model_preamble schema
           @ lines_text (map (generate_field_code order) fields')
           @ (if s_timestamps schema then created_at_line @ nl @ updated_at_line @ nl else [])
           @ (if s_soft_delete schema then deleted_at_line @ nl else [])
           @ lines_text (map (\<lambda>rel. generate_relation_code rel (s_name schema)) relations)"
    by (simp add: lines_text_def)
  finally show ?thesis .
qed

lemma generate_pydantic_schema_text:
  "generate_pydantic_schema schema fs schema_type =
     pydantic_head schema schema_type
     @ (if pydantic_lines schema fs schema_type = [] then ''    pass'' @ nl
        else lines_text (pydantic_lines schema fs schema_type))
     @ pydantic_tail"
  by (simp add: generate_pydantic_schema_def pydantic_head_def pydantic_tail_def Let_def
      py_join_lines_text [symmetric])

lemma one_primary_split:
  "length (filter P xs) = 1 \<Longrightarrow>
   \<exists>pre p post. xs = pre @ p # post \<and> P p \<and> (\<forall>x \<in> set (pre @ post). \<not> P x)"
proof (induction xs)
  case Nil
  then show ?case by simp
next
  case (Cons x xs)
  show ?case
  proof (cases "P x")
    case True
    then have "filter P xs = []" using Cons.prems by simp
    then have "\<forall>y \<in> set xs. \<not> P y" by (simp add: filter_empty_conv)
    then have "x # xs = [] @ x # xs \<and> P x \<and> (\<forall>y \<in> set ([] @ xs). \<not> P y)"
      using True by simp
    then show ?thesis by blast
  next
    case False
    then have "length (filter P xs) = 1" using Cons.prems by simp
    then obtain pre p post where
      "xs = pre @ p # post" "P p" "\<forall>y \<in> set (pre @ post). \<not> P y"
      using Cons.IH by blast
    then have "x # xs = (x # pre) @ p # post \<and> P p \<and> (\<forall>y \<in> set ((x # pre) @ post). \<not> P y)"
      using False by simp
    then show ?thesis by blast
  qed
qed

text \<open>
  Claim C6. For a field list with exactly one primary field and N other fields,
  the text of the Create type is its head, one line for each non-primary field,
  in order, and nothing else (\<open>pass\<close> when there is none), then its tail: N lines;
  the text of the Update type holds one line for each field, and the line of
  every field (so of each of the N non-primary ones) has the type made optional
  and the default \<open>None\<close>.
\<close>

theorem create_and_update_fields:
  assumes one_pk: "length (filter f_primary fields') = 1"
  shows "generate_pydantic_schema schema fields' ''Create''
           = pydantic_head schema ''Create''
             @ (if filter (\<lambda>f. \<not> f_primary f) fields' = [] then ''    pass'' @ nl
                else lines_text (map create_line (filter (\<lambda>f. \<not> f_primary f) fields')))
             @ pydantic_tail
     \<and> length (map create_line (filter (\<lambda>f. \<not> f_primary f) fields')) = length fields' - 1
     \<and> generate_pydantic_schema schema fields' ''Update''
           = pydantic_head schema ''Update'' @ lines_text (map update_line fields')
             @ pydantic_tail"
proof -
  have "length (filter f_primary fields') \<le> length fields'" by simp
  then have ne: "fields' \<noteq> []" using one_pk by auto
  show ?thesis
    using one_pk ne
    by (simp add: generate_pydantic_schema_text pydantic_lines_def pydantic_field_lines_Create
        pydantic_field_lines_Update length_filter_not_primary)
qed

text \<open>
  Claim C9. For a field list with exactly one primary field, the text of the
  Update type also declares the primary field, optional like the others: with
  the field list split at its primary field, the Update text holds the lines of
  the fields before it, the line of the primary field, and the lines of the
  fields after it, N + 1 lines, while the Create text holds the N lines of the
  others only.
\<close>

theorem update_includes_primary:
  assumes one_pk: "length (filter f_primary fields') = 1"
  shows "\<exists>pre p post.
           fields' = pre @ p # post \<and> f_primary p
           \<and> filter (\<lambda>f. \<not> f_primary f) fields' = pre @ post
           \<and> generate_pydantic_schema schema fields' ''Update''
               = pydantic_head schema ''Update''
                 @ lines_text (map update_line pre)
                 @ update_line p @ nl
                 @ lines_text (map update_line post)
                 @ pydantic_tail
           \<and> generate_pydantic_schema schema fields' ''Create''
               = pydantic_head schema ''Create''
                 @ (if pre @ post = [] then ''    pass'' @ nl
                    else lines_text (map create_line (pre @ post)))
                 @ pydantic_tail
           \<and> length (map update_line fields') = length (map create_line (pre @ post)) + 1"
proof -
  obtain pre p post where
    split: "fields' = pre @ p # post" and p: "f_primary p"
    and rest: "\<forall>x \<in> set (pre @ post). \<not> f_primary x"
    using one_primary_split [OF one_pk] by blast
  have np: "filter (\<lambda>f. \<not> f_primary f) fields' = pre @ post"
    using split p rest by (simp add: filter_id_conv)
  have upd: "generate_pydantic_schema schema fields' ''Update''
               = pydantic_head schema ''Update''
                 @ lines_text (map update_line pre)
                 @ update_line p @ nl
                 @ lines_text (map update_line post)
                 @ pydantic_tail"
    using split
    by (simp add: generate_pydantic_schema_text pydantic_lines_def pydantic_field_lines_Update
        lines_text_def)
  have cre: "generate_pydantic_schema schema fields' ''Create''
               = pydantic_head schema ''Create''
                 @ (if pre @ post = [] then ''    pass'' @ nl
                    else lines_text (map create_line (pre @ post)))
                 @ pydantic_tail"
    using np
    by (simp add: generate_pydantic_schema_text pydantic_lines_def pydantic_field_lines_Create)
  have len: "length (map update_line fields') = length (map create_line (pre @ post)) + 1"
    using split by simp
  show ?thesis using split p np upd cre len by blast
qed

lemma py_repr_set_free: "set_free v \<Longrightarrow> py_repr o1 v = py_repr o2 v"
proof (induction o1 v rule: py_repr.induct)
  case (5 order xs)
  then have "map (py_repr order) xs = map (py_repr o2) xs"
    by (auto simp: list_all_iff)
  then show ?case by (simp del: map_eq_conv)
next
  case (6 order kvs)
  then have "map (\<lambda>(k, v). py_repr order k @ '': '' @ py_repr order v) kvs
      = map (\<lambda>(k, v). py_repr o2 k @ '': '' @ py_repr o2 v) kvs"
    by (auto simp: list_all_iff)
  then show ?case by (simp del: map_eq_conv)
qed simp_all

lemma py_str_set_free: "set_free v \<Longrightarrow> py_str o1 v = py_str o2 v"
  using py_repr_set_free [of v o1 o2] by (cases v) (simp_all add: py_str_def)

lemma generate_field_code_set_free:
  "set_free (f_default f) \<Longrightarrow> generate_field_code o1 f = generate_field_code o2 f"
  using py_str_set_free [of "f_default f" o1 o2]
  by (cases "f_default f") (simp_all add: generate_field_code_def Let_def py_str_def)

lemma get_python_type_view:
  "router_view f = router_view g \<Longrightarrow> get_python_type f = get_python_type g"
  by (simp add: router_view_def get_python_type_def)

lemma pydantic_field_lines_view:
  "map router_view fs = map router_view gs \<Longrightarrow>
   pydantic_field_lines t fs = pydantic_field_lines t gs"
proof (induction fs arbitrary: gs)
  case Nil
  then show ?case by simp
next
  case (Cons f fs)
  then obtain g gs' where gs: "gs = g # gs'" and v: "router_view f = router_view g"
    and rest: "map router_view fs = map router_view gs'"
    by (cases gs) auto
  have ty: "get_python_type f = get_python_type g" using v by (rule get_python_type_view)
  have fl: "f_name f = f_name g" "f_primary f = f_primary g" "f_required f = f_required g"
    using v by (simp_all add: router_view_def)
  show ?case
    using Cons.IH [OF rest] by (auto simp add: gs ty fl Let_def)
qed

lemma first_primary_view:
  "map router_view fs = map router_view gs \<Longrightarrow>
   map_option router_view (first_primary fs) = map_option router_view (first_primary gs)"
proof (induction fs arbitrary: gs)
  case Nil
  then show ?case by (simp add: first_primary_def)
next
  case (Cons f fs)
  then obtain g gs' where gs: "gs = g # gs'" and v: "router_view f = router_view g"
    and rest: "map router_view fs = map router_view gs'"
    by (cases gs) auto
  have pr: "f_primary f = f_primary g" using v by (simp add: router_view_def)
  show ?case
    using Cons.IH [OF rest] v by (simp add: gs pr first_primary_def)
qed

lemma generate_pydantic_schema_view:
  "map router_view fs = map router_view gs \<Longrightarrow> s_name s1 = s_name s2 \<Longrightarrow>
   s_timestamps s1 = s_timestamps s2 \<Longrightarrow>
   generate_pydantic_schema s1 fs t = generate_pydantic_schema s2 gs t"
  by (simp add: generate_pydantic_schema_def pydantic_lines_def pydantic_field_lines_view [of fs gs])

lemma primary_key_view:
  assumes pk: "map_option router_view (first_primary fs) = map_option router_view (first_primary gs)"
  shows "(case first_primary fs of Some f \<Rightarrow> f_name f | None \<Rightarrow> ''id'')
           = (case first_primary gs of Some f \<Rightarrow> f_name f | None \<Rightarrow> ''id'')
       \<and> (case first_primary fs of Some f \<Rightarrow> get_python_type f | None \<Rightarrow> ''UUID'')
           = (case first_primary gs of Some f \<Rightarrow> get_python_type f | None \<Rightarrow> ''UUID'')"
proof (cases "first_primary fs")
  case None
  then have "first_primary gs = None" using pk by simp
  then show ?thesis using None by simp
next
  case (Some f)
  then obtain g where g: "first_primary gs = Some g" and v: "router_view f = router_view g"
    using pk by (cases "first_primary gs") auto
  have "f_name f = f_name g" using v by (simp add: router_view_def)
  moreover have "get_python_type f = get_python_type g" using v by (rule get_python_type_view)
  ultimately show ?thesis using Some g by simp
qed

lemma generate_router_text:
  "generate_router a s fs =
     router_imports (s_name s)
     @ router_schemas (generate_pydantic_schema s fs ''Create'')
         (generate_pydantic_schema s fs ''Update'') (generate_pydantic_schema s fs ''Response'')
     @ router_code_text (s_name s) (s_table s) (''/'' @ s_table s)
         (case first_primary fs of Some f \<Rightarrow> f_name f | None \<Rightarrow> ''id'')
         (case first_primary fs of Some f \<Rightarrow> get_python_type f | None \<Rightarrow> ''UUID'')"
  unfolding generate_router_def Let_def ..

lemma generate_router_view:
  assumes v: "map router_view fs = map router_view gs"
      and n: "s_name s1 = s_name s2" and tb: "s_table s1 = s_table s2"
      and ts: "s_timestamps s1 = s_timestamps s2"
  shows "generate_router a1 s1 fs = generate_router a2 s2 gs"
proof -
  have pk: "map_option router_view (first_primary fs) = map_option router_view (first_primary gs)"
    using v by (rule first_primary_view)
  note nm = primary_key_view [OF pk, THEN conjunct1]
  note ty = primary_key_view [OF pk, THEN conjunct2]
  have sc: "generate_pydantic_schema s1 fs t = generate_pydantic_schema s2 gs t" for t
    using v n ts by (rule generate_pydantic_schema_view)
  show ?thesis
    unfolding generate_router_text nm ty sc n tb ..
qed

text \<open>
  Claim C5, as amended. The text of a model does not depend on the generator
  object; it is the same in every process (whatever the set order) when no
  field default holds a set. The text of a router depends only on the name, the
  table and the timestamps flag of the schema and on the name, type, primary,
  nullable and required of each field: not on the generator object, and not on
  any default.
\<close>

theorem generators_deterministic:
  "generate_model order g1 schema fields' relations
     = generate_model order g2 schema fields' relations
   \<and> ((\<forall>f \<in> set fields'. set_free (f_default f)) \<longrightarrow>
        generate_model o1 g1 schema fields' relations
          = generate_model o2 g2 schema fields' relations)
   \<and> (map router_view fields1 = map router_view fields2 \<and> s_name schema1 = s_name schema2
        \<and> s_table schema1 = s_table schema2 \<and> s_timestamps schema1 = s_timestamps schema2 \<longrightarrow>
        generate_router a1 schema1 fields1 = generate_router a2 schema2 fields2)"
proof (intro conjI impI)
  show "generate_model order g1 schema fields' relations
     = generate_model order g2 schema fields' relations"
    by (simp add: generate_model_text)
next
  assume "\<forall>f \<in> set fields'. set_free (f_default f)"
  then have "map (generate_field_code o1) fields' = map (generate_field_code o2) fields'"
    by (simp add: generate_field_code_set_free)
  then show "generate_model o1 g1 schema fields' relations
          = generate_model o2 g2 schema fields' relations"
    by (simp add: generate_model_text del: map_eq_conv)
next
  assume "map router_view fields1 = map router_view fields2 \<and> s_name schema1 = s_name schema2
        \<and> s_table schema1 = s_table schema2 \<and> s_timestamps schema1 = s_timestamps schema2"
  then show "generate_router a1 schema1 fields1 = generate_router a2 schema2 fields2"
    using generate_router_view by blast
qed

lemmas gen_demo_defs = widget_id_def widget_title_def widget_tags_def widget_def owner_def
  owner_widgets_def gadget_def demo_field_map_def

lemmas validator_eval = validate_all_def validate_schema_def validate_relations_def
  validate_primary_key_def validate_field_type_def validate_required_nullable_def
  py_in_def dict_get_or_none_def dict_get_def VALID_TYPES_def VALID_RELATION_TYPES_def
  claimed_valid_def target_exists_def relation_type_ok_def target_nonempty_def Let_def

text \<open>
  Claim C2 as stated fails from right to left: the four conditions hold for
  Widget and Gadget, and the validator rejects Gadget's relation for its type.
\<close>

theorem validate_all_relation_type_counterexample:
  "claimed_valid [widget, gadget] demo_field_map
   \<and> validate_all [widget, gadget] demo_field_map
       = Inl (ValidationError (InvalidRelationType (VStr ''one_to_one'') ''Gadget''))"
  by (simp add: gen_demo_defs validator_eval)

theorem validate_all_accepts_iff_witness:
  "validate_all [widget, owner] demo_field_map = Inr ()
   \<and> claimed_valid [widget, owner] demo_field_map
   \<and> relation_type_ok [(''type'', VStr ''one_to_many''), (''target'', VStr ''Widget'')]
   \<and> target_nonempty [(''type'', VStr ''one_to_many''), (''target'', VStr ''Widget'')]
   \<and> validate_all [owner] demo_field_map \<noteq> Inr ()
   \<and> \<not> claimed_valid [owner] demo_field_map"
proof -
  have a: "claimed_valid [widget, owner] demo_field_map"
    by (simp add: gen_demo_defs validator_eval)
  have b: "relation_type_ok [(''type'', VStr ''one_to_many''), (''target'', VStr ''Widget'')]
      \<and> target_nonempty [(''type'', VStr ''one_to_many''), (''target'', VStr ''Widget'')]"
    by (simp add: validator_eval)
  have c: "\<forall>s \<in> set [widget, owner]. \<forall>rel \<in> set (s_relations s).
      relation_type_ok rel \<and> target_nonempty rel"
    using b by (simp add: gen_demo_defs)
  have d: "\<not> claimed_valid [owner] demo_field_map"
    by (simp add: gen_demo_defs validator_eval)
  show ?thesis
    using a b c d validate_all_accepts_iff [of "[widget, owner]" demo_field_map]
      validate_all_accepts_iff [of "[owner]" demo_field_map]
    by simp
qed

lemma widget_id_code:
  "generate_field_code order widget_id
     = ''    id = Column(UUID, primary_key=True, default=uuid.uuid4)''"
  by (simp add: widget_id_def generate_field_code_def get_sqlalchemy_type_def TYPE_MAPPING_def
      Let_def)

lemma owner_widgets_code:
  "generate_relation_code owner_widgets ''Owner''
     = ''    widgets = relationship('' @ dq @ ''Widget'' @ dq @ '', back_populates=''
         @ dq @ ''owners'' @ dq @ '')''"
  by (simp add: owner_widgets_def generate_relation_code_def or_else_def lower_def
      lower_char_def Let_def)

text \<open>
  Claim C3 as stated fails: in the model of Owner, with timestamps, soft delete
  and one relation, the relation line is the last line, after deleted_at.
\<close>

theorem generate_model_relations_last_counterexample:
  "s_timestamps owner \<and> s_soft_delete owner
   \<and> generate_model order_as_is \<lparr>mg_output_dir = ''app/models''\<rparr> owner [widget_id]
         [owner_widgets]
       = model_preamble owner
         @ ''    id = Column(UUID, primary_key=True, default=uuid.uuid4)'' @ nl
         @ created_at_line @ nl
         @ updated_at_line @ nl
         @ deleted_at_line @ nl
         @ ''    widgets = relationship('' @ dq @ ''Widget'' @ dq @ '', back_populates=''
             @ dq @ ''owners'' @ dq @ '')'' @ nl"
proof -
  have ts: "s_timestamps owner" and sd: "s_soft_delete owner" and nm: "s_name owner = ''Owner''"
    by (simp_all add: owner_def)
  show ?thesis
    by (simp add: generate_model_text ts sd nm widget_id_code owner_widgets_code)
qed

theorem generate_model_column_order_witness:
  "(s_timestamps owner \<or> s_soft_delete owner)
   \<and> generate_model order_as_is \<lparr>mg_output_dir = ''app/models''\<rparr> owner [widget_id]
         [owner_widgets]
       = model_preamble owner
         @ lines_text [generate_field_code order_as_is widget_id]
         @ created_at_line @ nl @ updated_at_line @ nl
         @ deleted_at_line @ nl
         @ lines_text [generate_relation_code owner_widgets ''Owner'']"
proof -
  have flags: "s_timestamps owner \<or> s_soft_delete owner" by (simp add: owner_def)
  have ts: "s_timestamps owner" and sd: "s_soft_delete owner" and nm: "s_name owner = ''Owner''"
    by (simp_all add: owner_def)
  show ?thesis
    using flags generate_model_column_order [OF flags, of order_as_is
        "\<lparr>mg_output_dir = ''app/models''\<rparr>" "[widget_id]" "[owner_widgets]"]
    by (simp add: ts sd nm)
qed

lemma widget_lines:
  "create_line widget_title = ''    title: str''"
  "update_line widget_title = ''    title: str | None = None''"
  "update_line widget_id = ''    id: UUID | None = None''"
  by (simp_all add: gen_demo_defs create_line_def update_line_def get_python_type_def
      python_base_def type_map_def)

lemma widget_one_primary: "length (filter f_primary [widget_id, widget_title]) = 1"
  by (simp add: gen_demo_defs)

lemma widget_primary: "f_primary widget_id" "\<not> f_primary widget_title"
  by (simp_all add: gen_demo_defs)

theorem create_and_update_fields_witness:
  "length (filter f_primary [widget_id, widget_title]) = 1
   \<and> generate_pydantic_schema widget [widget_id, widget_title] ''Create''
       = pydantic_head widget ''Create'' @ ''    title: str'' @ nl @ pydantic_tail
   \<and> generate_pydantic_schema widget [widget_id, widget_title] ''Update''
       = pydantic_head widget ''Update''
         @ ''    id: UUID | None = None'' @ nl
         @ ''    title: str | None = None'' @ nl
         @ pydantic_tail"
  using widget_one_primary create_and_update_fields [OF widget_one_primary, of widget]
  by (simp add: widget_primary widget_lines lines_text_def)

theorem update_includes_primary_witness:
  "length (filter f_primary [widget_id, widget_title]) = 1
   \<and> f_primary widget_id
   \<and> generate_pydantic_schema widget [widget_id, widget_title] ''Update''
       = pydantic_head widget ''Update''
         @ update_line widget_id @ nl
         @ lines_text [update_line widget_title]
         @ pydantic_tail
   \<and> generate_pydantic_schema widget [widget_id, widget_title] ''Create''
       = pydantic_head widget ''Create'' @ lines_text [create_line widget_title]
         @ pydantic_tail"
proof -
  obtain pre p post where
    split: "[widget_id, widget_title] = pre @ p # post" and p: "f_primary p"
    and np: "filter (\<lambda>f. \<not> f_primary f) [widget_id, widget_title] = pre @ post"
    and upd: "generate_pydantic_schema widget [widget_id, widget_title] ''Update''
               = pydantic_head widget ''Update''
                 @ lines_text (map update_line pre)
                 @ update_line p @ nl
                 @ lines_text (map update_line post)
                 @ pydantic_tail"
    and cre: "generate_pydantic_schema widget [widget_id, widget_title] ''Create''
               = pydantic_head widget ''Create''
                 @ (if pre @ post = [] then ''    pass'' @ nl
                    else lines_text (map create_line (pre @ post)))
                 @ pydantic_tail"
    using update_includes_primary [OF widget_one_primary, of widget] by blast
  have rest: "pre @ post = [widget_title]" using np by (simp add: widget_primary)
  have "pre = [] \<and> p = widget_id \<and> post = [widget_title]"
  proof (cases pre)
    case Nil
    then show ?thesis using split by simp
  next
    case (Cons a as)
    then have "a = widget_id" using split by simp
    moreover have "a \<in> set (pre @ post)" using Cons by simp
    ultimately show ?thesis using rest widget_primary
      by (metis filter.simps(2) filter_id_conv np not_Cons_self2 rest set_ConsD empty_iff
          empty_set list.sel(1) list.simps(3))
  qed
  then show ?thesis
    using widget_one_primary widget_primary upd cre by (simp add: lines_text_def)
qed

text \<open>
  Claim C5 as stated fails for a field whose default is a set: the model prints
  it with \<open>str()\<close>, in the iteration order of the process, so two processes give
  two texts from the same schema.
\<close>

theorem generate_model_set_default_counterexample:
  "generate_field_code order_as_is widget_tags
     = ''    tags = Column(JSON, default={'' @ sq @ ''a'' @ sq @ '', '' @ sq @ ''b'' @ sq @ ''})''
   \<and> generate_field_code order_reversed widget_tags
     = ''    tags = Column(JSON, default={'' @ sq @ ''b'' @ sq @ '', '' @ sq @ ''a'' @ sq @ ''})''
   \<and> generate_model order_as_is \<lparr>mg_output_dir = ''app/models''\<rparr> widget
        [widget_id, widget_tags] []
     \<noteq> generate_model order_reversed \<lparr>mg_output_dir = ''app/models''\<rparr> widget
        [widget_id, widget_tags] []"
proof -
  have a: "generate_field_code order_as_is widget_tags
     = ''    tags = Column(JSON, default={'' @ sq @ ''a'' @ sq @ '', '' @ sq @ ''b'' @ sq @ ''})''"
    by (simp add: widget_tags_def generate_field_code_def get_sqlalchemy_type_def
        TYPE_MAPPING_def py_str_def repr_str_def repr_char_def order_as_is_def sq_def Let_def)
  have b: "generate_field_code order_reversed widget_tags
     = ''    tags = Column(JSON, default={'' @ sq @ ''b'' @ sq @ '', '' @ sq @ ''a'' @ sq @ ''})''"
    by (simp add: widget_tags_def generate_field_code_def get_sqlalchemy_type_def
        TYPE_MAPPING_def py_str_def repr_str_def repr_char_def order_reversed_def sq_def Let_def)
  have ts: "s_timestamps widget" and sd: "\<not> s_soft_delete widget"
    by (simp_all add: widget_def)
  have c: "generate_model order_as_is \<lparr>mg_output_dir = ''app/models''\<rparr> widget
        [widget_id, widget_tags] []
     \<noteq> generate_model order_reversed \<lparr>mg_output_dir = ''app/models''\<rparr> widget
        [widget_id, widget_tags] []"
    by (simp add: generate_model_text ts sd widget_id_code a b sq_def)
  show ?thesis using a b c by simp
qed

theorem generators_deterministic_witness:
  "set_free (f_default widget_id) \<and> set_free (f_default widget_title)
   \<and> generate_model order_as_is \<lparr>mg_output_dir = ''app/models''\<rparr> widget
        [widget_id, widget_title] []
     = generate_model order_reversed \<lparr>mg_output_dir = ''elsewhere''\<rparr> widget
        [widget_id, widget_title] []
   \<and> router_view (widget_tags\<lparr>f_default := YNone\<rparr>) = router_view widget_tags
   \<and> generate_router \<lparr>ag_output_dir = ''app/api''\<rparr> widget [widget_id, widget_tags]
     = generate_router \<lparr>ag_output_dir = ''elsewhere''\<rparr> widget
         [widget_id, widget_tags\<lparr>f_default := YNone\<rparr>]"
proof -
  have sf: "\<forall>f \<in> set [widget_id, widget_title]. set_free (f_default f)"
    by (simp add: gen_demo_defs)
  have rv: "map router_view [widget_id, widget_tags]
      = map router_view [widget_id, widget_tags\<lparr>f_default := YNone\<rparr>]"
    by (simp add: router_view_def)
  note inst = generators_deterministic [where ?fields' = "[widget_id, widget_title]"
        and schema = widget and relations = "[]"
        and ?o1.0 = order_as_is and ?o2.0 = order_reversed
        and ?g1.0 = "\<lparr>mg_output_dir = ''app/models''\<rparr>"
        and ?g2.0 = "\<lparr>mg_output_dir = ''elsewhere''\<rparr>"
        and ?fields1.0 = "[widget_id, widget_tags]"
        and ?fields2.0 = "[widget_id, widget_tags\<lparr>f_default := YNone\<rparr>]"
        and ?schema1.0 = widget and ?schema2.0 = widget
        and ?a1.0 = "\<lparr>ag_output_dir = ''app/api''\<rparr>"
        and ?a2.0 = "\<lparr>ag_output_dir = ''elsewhere''\<rparr>"]
  have m: "generate_model order_as_is \<lparr>mg_output_dir = ''app/models''\<rparr> widget
        [widget_id, widget_title] []
     = generate_model order_reversed \<lparr>mg_output_dir = ''elsewhere''\<rparr> widget
        [widget_id, widget_title] []"
    using inst sf by blast
  have r: "generate_router \<lparr>ag_output_dir = ''app/api''\<rparr> widget [widget_id, widget_tags]
     = generate_router \<lparr>ag_output_dir = ''elsewhere''\<rparr> widget
         [widget_id, widget_tags\<lparr>f_default := YNone\<rparr>]"
    using inst rv by blast
  have v: "router_view (widget_tags\<lparr>f_default := YNone\<rparr>) = router_view widget_tags"
    by (simp add: router_view_def)
  have f: "set_free (f_default widget_id) \<and> set_free (f_default widget_title)"
    using sf by simp
  show ?thesis using m r v f by blast
qed

end
